theory Spec2Isabelle
  imports Main "HOL-Library.Word"
begin

section \<open>Tank RTC SDK: video framing, frame cache and leg lifecycle\<close>

text \<open>
  A shallow embedding of \<^verbatim>\<open>src/index.js\<close> (class \<^verbatim>\<open>TankRTC\<close>).  The parts embedded are
  the binary video envelope written by \<^verbatim>\<open>sendVideoFrame\<close> and read by
  \<^verbatim>\<open>handleIncomingVideoMessage\<close>, the JPEG scanner \<^verbatim>\<open>getJPEGDimensions\<close>, the map
  \<^verbatim>\<open>receivedVideos\<close> with its sweep \<^verbatim>\<open>cleanupOldVideos\<close>, and the eight start/stop methods
  of the four legs together with the connection helpers they call.
\<close>

subsection \<open>Bytes, buffers and big-endian integers\<close>

text \<open>
  An \<^verbatim>\<open>ArrayBuffer\<close> or \<^verbatim>\<open>Uint8Array\<close> is a list of 8-bit words.  \<^verbatim>\<open>DataView\<close> reads raise a
  \<^verbatim>\<open>RangeError\<close> when the field does not lie inside the buffer; \<^verbatim>\<open>ArrayBuffer.slice\<close> clamps
  its bounds to the buffer instead.
\<close>

type_synonym byte = "8 word"

datatype js_error = RangeError

definition be_nat :: "byte list \<Rightarrow> nat" where
  "be_nat bs = foldl (\<lambda>acc b. acc * 256 + unat b) 0 bs"

primrec be_bytes :: "nat \<Rightarrow> nat \<Rightarrow> byte list" where
  "be_bytes 0 v = []"
| "be_bytes (Suc n) v = be_bytes n (v div 256) @ [of_nat (v mod 256)]"

definition slice :: "byte list \<Rightarrow> nat \<Rightarrow> nat \<Rightarrow> byte list" where
  "slice data b e = take (e - b) (drop b data)"

definition getUint32 :: "byte list \<Rightarrow> nat \<Rightarrow> js_error + nat" where
  "getUint32 data off =
     (if off + 4 \<le> length data then Inr (be_nat (slice data off (off + 4))) else Inl RangeError)"

definition getBigUint64 :: "byte list \<Rightarrow> nat \<Rightarrow> js_error + int" where
  "getBigUint64 data off =
     (if off + 8 \<le> length data then Inr (int (be_nat (slice data off (off + 8))))
      else Inl RangeError)"

text \<open>
  \<^verbatim>\<open>setUint32\<close> stores a number modulo \<open>2^32\<close>; \<^verbatim>\<open>setBigUint64\<close> stores a \<^verbatim>\<open>BigInt\<close> (an
  unbounded integer) modulo \<open>2^64\<close>, and \<^verbatim>\<open>getBigUint64\<close> returns a \<^verbatim>\<open>BigInt\<close>.
\<close>

definition setUint32 :: "nat \<Rightarrow> byte list" where
  "setUint32 v = be_bytes 4 (v mod 2 ^ 32)"

definition setBigUint64 :: "int \<Rightarrow> byte list" where
  "setBigUint64 v = be_bytes 8 (nat (v mod 2 ^ 64))"

subsection \<open>Strings and the platform text codec\<close>

text \<open>
  A JavaScript string is modelled by its sequence of code points (surrogate pairs combined,
  a lone surrogate standing for itself).  \<^verbatim>\<open>new TextEncoder().encode\<close> and
  \<^verbatim>\<open>new TextDecoder().decode\<close> are platform functions, not code of the repository; they are
  written out here after the WHATWG Encoding Standard: the encoder replaces a lone surrogate
  by U+FFFD, the decoder replaces every ill-formed sequence by U+FFFD and, with its default
  options, drops one leading byte order mark.  In the decoder \<open>cp * 64 + b mod 64\<close> is
  \<^verbatim>\<open>(cp << 6) | (b & 0x3F)\<close>.
\<close>

type_synonym jsstring = "nat list"

definition is_surrogate :: "nat \<Rightarrow> bool" where
  "is_surrogate c = (0xD800 \<le> c \<and> c \<le> 0xDFFF)"

definition utf8_encode_cp :: "nat \<Rightarrow> nat list" where
  "utf8_encode_cp c =
     (if c < 0x80 then [c]
      else if c < 0x800 then [0xC0 + c div 64, 0x80 + c mod 64]
      else if c < 0x10000 then [0xE0 + c div 4096, 0x80 + c div 64 mod 64, 0x80 + c mod 64]
      else [0xF0 + c div 262144, 0x80 + c div 4096 mod 64, 0x80 + c div 64 mod 64,
            0x80 + c mod 64])"

definition utf8_encode :: "jsstring \<Rightarrow> nat list" where
  "utf8_encode s = concat (map (\<lambda>c. utf8_encode_cp (if is_surrogate c then 0xFFFD else c)) s)"

definition TextEncoder_encode :: "jsstring \<Rightarrow> byte list" where
  "TextEncoder_encode s = map of_nat (utf8_encode s)"

definition utf8_lead :: "nat \<Rightarrow> (nat \<times> nat \<times> nat \<times> nat) option" where
  "utf8_lead b =
     (if 0xC2 \<le> b \<and> b \<le> 0xDF then Some (1, b mod 32, 0x80, 0xBF)
      else if 0xE0 \<le> b \<and> b \<le> 0xEF then
        Some (2, b mod 16, if b = 0xE0 then 0xA0 else 0x80, if b = 0xED then 0x9F else 0xBF)
      else if 0xF0 \<le> b \<and> b \<le> 0xF4 then
        Some (3, b mod 8, if b = 0xF0 then 0x90 else 0x80, if b = 0xF4 then 0x8F else 0xBF)
      else None)"

function utf8_decode :: "nat \<Rightarrow> nat \<Rightarrow> nat \<Rightarrow> nat \<Rightarrow> nat list \<Rightarrow> jsstring" where
  "utf8_decode needed cp lo hi [] = (if needed \<noteq> 0 then [0xFFFD] else [])"
| "utf8_decode needed cp lo hi (b # bs) =
     (if needed = 0 then
        (if b < 0x80 then b # utf8_decode 0 0 0x80 0xBF bs
         else (case utf8_lead b of
                 None \<Rightarrow> 0xFFFD # utf8_decode 0 0 0x80 0xBF bs
               | Some (n, c, l, h) \<Rightarrow> utf8_decode n c l h bs))
      else if b < lo \<or> hi < b then 0xFFFD # utf8_decode 0 0 0x80 0xBF (b # bs)
      else if needed = 1 then (cp * 64 + b mod 64) # utf8_decode 0 0 0x80 0xBF bs
      else utf8_decode (needed - 1) (cp * 64 + b mod 64) 0x80 0xBF bs)"
  by pat_completeness auto
termination
  by (relation "measure (\<lambda>(needed, cp, lo, hi, bs). 2 * length bs + (if needed = 0 then 0 else 1))")
     auto

definition TextDecoder_decode :: "byte list \<Rightarrow> jsstring" where
  "TextDecoder_decode data =
     (let bs = map unat data;
          bs' = (if take 3 bs = [0xEF, 0xBB, 0xBF] then drop 3 bs else bs)
      in utf8_decode 0 0 0x80 0xBF bs')"

text \<open>
  \<^verbatim>\<open>String.prototype.trim\<close> strips the ECMAScript white space and line terminator code points
  from both ends.
\<close>

definition js_whitespace :: "nat \<Rightarrow> bool" where
  "js_whitespace c =
     (c \<in> set [0x09, 0x0A, 0x0B, 0x0C, 0x0D, 0x20, 0xA0, 0x1680, 0x2028, 0x2029, 0x202F,
                0x205F, 0x3000, 0xFEFF]
      \<or> (0x2000 \<le> c \<and> c \<le> 0x200A))"

definition String_trim :: "jsstring \<Rightarrow> jsstring" where
  "String_trim s = rev (dropWhile js_whitespace (rev (dropWhile js_whitespace s)))"

text \<open>A Unicode scalar value: a code point up to U+10FFFF that is not a surrogate.\<close>

definition scalar :: "nat \<Rightarrow> bool" where
  "scalar c = (c < 0x110000 \<and> \<not> is_surrogate c)"

subsection \<open>The video envelope: sender side\<close>

text \<open>
  \<^verbatim>\<open>sendVideoFrame\<close> lays the message out in a fresh buffer of
  \<open>4 + clientIDLen + 8 + 4 + blob.size\<close> bytes: the length of the encoded client id, the
  encoded client id, the timestamp \<^verbatim>\<open>BigInt(Date.now()) * 1000000n\<close>, the frame counter and
  the JPEG bytes.  The writes are at disjoint offsets and cover the buffer, so the buffer is
  the concatenation of the five fields.  Both copies of this code in the source (the
  \<^verbatim>\<open>toBlob\<close> callback and the Safari fallback) write the same layout.
\<close>

definition videoFrameMessage :: "jsstring \<Rightarrow> int \<Rightarrow> nat \<Rightarrow> byte list \<Rightarrow> byte list" where
  "videoFrameMessage clientId timestamp frameNo blob =
     (let clientIDBytes = TextEncoder_encode clientId;
          clientIDLen = length clientIDBytes
      in setUint32 clientIDLen @ clientIDBytes @ setBigUint64 timestamp @ setUint32 frameNo
         @ blob)"

subsection \<open>The video envelope: receiver side\<close>

text \<open>
  The receiver's \<^verbatim>\<open>handleIncomingVideoMessage\<close> leaves through one of several \<^verbatim>\<open>return\<close>
  statements, or through its \<^verbatim>\<open>catch\<close> block.  Each exit is given a label here, in source
  order.
\<close>

datatype reject =
    Truncated
  | InvalidIdentityLength
  | EmptyIdentity
  | EmptyPayload
  | Stale
  | HeaderTooShort
  | NotAnImage
  | UnparseableContainer
  | DimensionMismatch
  | Caught js_error

record decoded =
  d_clientID :: jsstring
  d_timestamp :: int
  d_frameNumber :: nat
  d_videoData :: "byte list"

text \<open>Lines 856--882: the header is parsed and the four fields are cut out of the buffer.\<close>

definition decodeVideoMessage :: "byte list \<Rightarrow> reject + decoded" where
  "decodeVideoMessage data =
     (if length data < 20 then Inl Truncated
      else (case getUint32 data 0 of
        Inl e \<Rightarrow> Inl (Caught e)
      | Inr clientIDLen \<Rightarrow>
          (if clientIDLen \<le> 0 \<or> clientIDLen > 1000 \<or> clientIDLen + 16 > length data
           then Inl InvalidIdentityLength
           else
             (let clientID = TextDecoder_decode (slice data 4 (4 + clientIDLen)) in
              if clientID = [] \<or> String_trim clientID = [] then Inl EmptyIdentity
              else (case getBigUint64 data (4 + clientIDLen) of
                Inl e \<Rightarrow> Inl (Caught e)
              | Inr timestamp \<Rightarrow>
                  (case getUint32 data (12 + clientIDLen) of
                     Inl e \<Rightarrow> Inl (Caught e)
                   | Inr frameNumber \<Rightarrow>
                       (let videoData = slice data (16 + clientIDLen) (length data) in
                        if length videoData = 0 then Inl EmptyPayload
                        else Inr \<lparr> d_clientID = clientID, d_timestamp = timestamp,
                                   d_frameNumber = frameNumber, d_videoData = videoData \<rparr>)))))))"

subsection \<open>The JPEG dimension scanner\<close>

text \<open>
  \<^verbatim>\<open>getJPEGDimensions\<close> indexes a \<^verbatim>\<open>Uint8Array\<close>.  In JavaScript an index outside the array
  yields \<^verbatim>\<open>undefined\<close> (here \<open>None\<close>) and raises nothing; \<^verbatim>\<open>undefined === 0xFF\<close> is false,
  \<^verbatim>\<open>undefined !== 0x00\<close> is true, a comparison \<^verbatim>\<open>undefined >= n\<close> is false, and the bitwise
  operators read \<^verbatim>\<open>undefined\<close> as 0.  For two bytes \<^verbatim>\<open>(a << 8) | b\<close> is \<open>a * 256 + b\<close>.
  The result is \<open>(width, height)\<close>, or \<open>None\<close> for \<^verbatim>\<open>null\<close>.
\<close>

definition at :: "byte list \<Rightarrow> nat \<Rightarrow> nat option" where
  "at data i = (if i < length data then Some (unat (data ! i)) else None)"

definition ToInt32 :: "nat option \<Rightarrow> nat" where
  "ToInt32 v = (case v of None \<Rightarrow> 0 | Some n \<Rightarrow> n)"

definition js_between :: "nat option \<Rightarrow> nat \<Rightarrow> nat \<Rightarrow> bool" where
  "js_between v lo hi = (case v of None \<Rightarrow> False | Some n \<Rightarrow> lo \<le> n \<and> n \<le> hi)"

function getJPEGDimensions_loop :: "byte list \<Rightarrow> nat \<Rightarrow> (nat \<times> nat) option" where
  "getJPEGDimensions_loop data offset =
     (if offset + 1 < length data then
        (if at data offset = Some 0xFF \<and> at data (offset + 1) \<noteq> Some 0x00 then
           (let marker = at data (offset + 1) in
            if js_between marker 0xC0 0xC3 \<and> offset + 9 < length data then
              (let height = ToInt32 (at data (offset + 5)) * 256 + ToInt32 (at data (offset + 6));
                   width = ToInt32 (at data (offset + 7)) * 256 + ToInt32 (at data (offset + 8))
               in Some (width, height))
            else if offset + 2 < length data then
              (let len = ToInt32 (at data (offset + 2)) * 256 + ToInt32 (at data (offset + 3))
               in getJPEGDimensions_loop data (offset + (2 + len)))
            else None)
         else getJPEGDimensions_loop data (offset + 1))
      else None)"
  by pat_completeness auto
termination
  by (relation "measure (\<lambda>(data, offset). length data - offset)") auto

definition getJPEGDimensions :: "byte list \<Rightarrow> (nat \<times> nat) option" where
  "getJPEGDimensions data = getJPEGDimensions_loop data 2"

text \<open>
  The same scanner in an embedding where indexing outside the array is an error: every
  \<^verbatim>\<open>data[i]\<close> goes through \<open>index\<close>, and the first index outside the array ends the scan with
  that index.  (The two reads of the marker test are both made before the test; the loop
  condition has put both inside the array.)
\<close>

datatype read_error = OutOfRange nat

definition index :: "byte list \<Rightarrow> nat \<Rightarrow> read_error + nat" where
  "index data i = (if i < length data then Inr (unat (data ! i)) else Inl (OutOfRange i))"

definition index2 :: "byte list \<Rightarrow> nat \<Rightarrow> read_error + nat" where
  "index2 data i =
     (case index data i of
        Inl e \<Rightarrow> Inl e
      | Inr a \<Rightarrow> (case index data (i + 1) of Inl e \<Rightarrow> Inl e | Inr b \<Rightarrow> Inr (a * 256 + b)))"

function getJPEGDimensions_loop_strict ::
  "byte list \<Rightarrow> nat \<Rightarrow> read_error + (nat \<times> nat) option" where
  "getJPEGDimensions_loop_strict data offset =
     (if offset + 1 < length data then
        (case index data offset of
           Inl e \<Rightarrow> Inl e
         | Inr m0 \<Rightarrow>
            (case index data (offset + 1) of
               Inl e \<Rightarrow> Inl e
             | Inr marker \<Rightarrow>
                (if m0 = 0xFF \<and> marker \<noteq> 0x00 then
                   (if (0xC0 \<le> marker \<and> marker \<le> 0xC3) \<and> offset + 9 < length data then
                      (case index2 data (offset + 5) of
                         Inl e \<Rightarrow> Inl e
                       | Inr height \<Rightarrow>
                          (case index2 data (offset + 7) of
                             Inl e \<Rightarrow> Inl e
                           | Inr width \<Rightarrow> Inr (Some (width, height))))
                    else if offset + 2 < length data then
                      (case index2 data (offset + 2) of
                         Inl e \<Rightarrow> Inl e
                       | Inr len \<Rightarrow> getJPEGDimensions_loop_strict data (offset + (2 + len)))
                    else Inr None)
                 else getJPEGDimensions_loop_strict data (offset + 1))))
      else Inr None)"
  by pat_completeness auto
termination
  by (relation "measure (\<lambda>(data, offset). length data - offset)") auto

definition getJPEGDimensions_strict :: "byte list \<Rightarrow> read_error + (nat \<times> nat) option" where
  "getJPEGDimensions_strict data = getJPEGDimensions_loop_strict data 2"

subsection \<open>The controller object\<close>

text \<open>
  Objects handed out by the platform (sockets, peer connections, data channels, media
  streams, blob URLs, audio contexts) are told apart by a number drawn from the counter
  \<open>fresh\<close>.  Everything a method does to the outside world (an observer callback
  \<^verbatim>\<open>this.callbacks.onX?.(...)\<close>, a \<^verbatim>\<open>close()\<close>, a \<^verbatim>\<open>send()\<close>, \<^verbatim>\<open>URL.revokeObjectURL\<close>, ...) is
  appended to the list \<open>effects\<close>, in program order.  Console logging is left out, and so
  are the insertion of the hidden video element into the document on Safari, its removal, and
  the disconnecting of Web Audio nodes (the node fields of the controller record the latter).
\<close>

datatype readyState = CONNECTING | OPEN | CLOSING | CLOSED

record WebSocket =
  ws_id :: nat
  ws_readyState :: readyState

record RTCDataChannel =
  dc_id :: nat
  dc_readyState :: readyState

datatype effect =
    OnVideoSourceAdd jsstring nat
  | OnVideoSourceRemove jsstring
  | OnVideoFrameUpdate jsstring nat
  | OnAudioStateChange string bool
  | OnVideoStateChange string bool
  | OnError string
  | CreateObjectURL nat
  | RevokeObjectURL nat
  | NewWebSocket nat
  | WebSocketClose nat
  | WebSocketSend nat string
  | NewRTCPeerConnection nat
  | PeerConnectionClose nat
  | AddTrack nat nat
  | RemoveTrack nat nat
  | AddTransceiver nat
  | TrackStop nat
  | DataChannelSendText nat string
  | DataChannelSendBinary nat "byte list"
  | SetInterval nat
  | ClearInterval nat
  | NewAudioContext nat
  | AudioContextClose nat
  | AudioElementPause nat

record config =
  videoFrameRate :: nat
  videoWidth :: nat
  videoHeight :: nat

definition DEFAULT_CONFIG :: config where
  "DEFAULT_CONFIG = \<lparr> videoFrameRate = 30, videoWidth = 64, videoHeight = 64 \<rparr>"

record videoEntry =
  url :: nat
  timestamp :: int
  frameNumber :: nat

record TankRTC =
  config :: config
  clientId :: jsstring
  isSendingAudio :: bool
  isListeningAudio :: bool
  isSendingVideo :: bool
  isViewingVideo :: bool
  audioPeerConnection :: "nat option"
  videoPeerConnection :: "nat option"
  audioWsConnection :: "WebSocket option"
  videoWsConnection :: "WebSocket option"
  localStream :: "nat option"
  remoteAudioElement :: "nat option"
  videoDataChannel :: "RTCDataChannel option"
  videoCanvas :: bool
  videoContext :: bool
  videoElement :: "nat option"
  receivedVideos :: "(jsstring \<times> videoEntry) list"
  videoFrameNumber :: nat
  videoInterval :: "nat option"
  videoCleanupInterval :: "nat option"
  isSafari :: bool
  safariAudioContext :: "nat option"
  safariGainNode :: bool
  safariAnalyser :: bool
  safariUserInteractionNeeded :: bool
  safariRemoteSource :: bool
  safariRemoteGain :: bool
  fresh :: nat
  effects :: "effect list"

text \<open>The object as the constructor leaves it.\<close>

definition new_TankRTC :: "jsstring \<Rightarrow> config \<Rightarrow> bool \<Rightarrow> TankRTC" where
  "new_TankRTC cid cfg safari =
     \<lparr> config = cfg, clientId = cid,
       isSendingAudio = False, isListeningAudio = False,
       isSendingVideo = False, isViewingVideo = False,
       audioPeerConnection = None, videoPeerConnection = None,
       audioWsConnection = None, videoWsConnection = None,
       localStream = None, remoteAudioElement = None,
       videoDataChannel = None, videoCanvas = False, videoContext = False,
       videoElement = None, receivedVideos = [], videoFrameNumber = 0,
       videoInterval = None, videoCleanupInterval = None,
       isSafari = safari, safariAudioContext = None, safariGainNode = False,
       safariAnalyser = False, safariUserInteractionNeeded = False,
       safariRemoteSource = False, safariRemoteGain = False,
       fresh = 0, effects = [] \<rparr>"

definition emit :: "effect \<Rightarrow> TankRTC \<Rightarrow> TankRTC" where
  "emit e st = st\<lparr> effects := effects st @ [e] \<rparr>"

text \<open>
  \<^verbatim>\<open>handleError\<close> logs and calls the \<^verbatim>\<open>onError\<close> observer with the message.  Messages are written
  here without the emoji that the source puts in front of some of them.
\<close>

definition handleError :: "string \<Rightarrow> TankRTC \<Rightarrow> TankRTC" where
  "handleError message st = emit (OnError message) st"

text \<open>
  \<^verbatim>\<open>receivedVideos\<close> is a JavaScript \<^verbatim>\<open>Map\<close>: keys are unique and iteration follows insertion
  order; \<^verbatim>\<open>set\<close> on a present key replaces the value in place, on an absent key appends.
\<close>

definition Map_has :: "'k \<Rightarrow> ('k \<times> 'v) list \<Rightarrow> bool" where
  "Map_has k m = (k \<in> set (map fst m))"

definition Map_get :: "'k \<Rightarrow> ('k \<times> 'v) list \<Rightarrow> 'v option" where
  "Map_get k m = map_of m k"

fun Map_set :: "'k \<Rightarrow> 'v \<Rightarrow> ('k \<times> 'v) list \<Rightarrow> ('k \<times> 'v) list" where
  "Map_set k v [] = [(k, v)]"
| "Map_set k v (p # ps) = (if fst p = k then (k, v) # ps else p # Map_set k v ps)"

definition Map_delete :: "'k \<Rightarrow> ('k \<times> 'v) list \<Rightarrow> ('k \<times> 'v) list" where
  "Map_delete k m = filter (\<lambda>p. fst p \<noteq> k) m"

subsection \<open>Receiving a frame\<close>

text \<open>
  Lines 884--913.  \<open>now\<close> is \<^verbatim>\<open>Date.now()\<close>, in milliseconds.  The source computes
  \<^verbatim>\<open>Number(currentTime - timestamp) / 1000000\<close> on a \<^verbatim>\<open>BigInt\<close> difference and compares the
  quotient with 1000.  For an integer difference \<open>d\<close> this floating-point test is the integer
  test \<open>d > 1000 * 1000000\<close>: conversion and division are monotone and correctly rounded,
  1000 is a double, and the quotient for \<open>d = 10^9 + 1\<close> is already far more than one unit in
  the last place above 1000.  The same holds for the sweep's threshold 2000.
\<close>

definition frameAgeMs_exceeds :: "int \<Rightarrow> int \<Rightarrow> int \<Rightarrow> bool" where
  "frameAgeMs_exceeds currentTime ts thresholdMs = (currentTime - ts > thresholdMs * 1000000)"

definition validateVideoFrame :: "config \<Rightarrow> int \<Rightarrow> decoded \<Rightarrow> reject option" where
  "validateVideoFrame cfg now d =
     (let currentTime = now * 1000000 in
      if frameAgeMs_exceeds currentTime (d_timestamp d) 1000 then Some Stale
      else if length (d_videoData d) < 2 then Some HeaderTooShort
      else
        (let videoBytes = d_videoData d in
         if at videoBytes 0 \<noteq> Some 0xFF \<or> at videoBytes 1 \<noteq> Some 0xD8 then Some NotAnImage
         else (case getJPEGDimensions videoBytes of
           None \<Rightarrow> Some UnparseableContainer
         | Some (width, height) \<Rightarrow>
             if width \<noteq> videoWidth cfg \<or> height \<noteq> videoHeight cfg
             then Some DimensionMismatch
             else None)))"

text \<open>Lines 916--938: a blob URL is created, the map entry is written, one observer is told.\<close>

definition storeVideoFrame :: "decoded \<Rightarrow> TankRTC \<Rightarrow> TankRTC" where
  "storeVideoFrame d st =
     (let u = fresh st;
          st1 = emit (CreateObjectURL u) (st\<lparr> fresh := u + 1 \<rparr>);
          isNewVideoSource = \<not> Map_has (d_clientID d) (receivedVideos st1);
          st2 = st1\<lparr> receivedVideos :=
                  Map_set (d_clientID d)
                    \<lparr> url = u, timestamp = d_timestamp d, frameNumber = d_frameNumber d \<rparr>
                    (receivedVideos st1) \<rparr>
      in if isNewVideoSource then emit (OnVideoSourceAdd (d_clientID d) u) st2
         else emit (OnVideoFrameUpdate (d_clientID d) u) st2)"

text \<open>
  The whole handler.  \<open>handleIncomingVideoMessage_run\<close> follows the body of the \<^verbatim>\<open>try\<close>
  block; \<open>handleIncomingVideoMessage_exit\<close> names the exit taken (\<open>None\<close> for the end of the
  block) and \<open>handleIncomingVideoMessage\<close> is the object afterwards: every early exit leaves it
  as it was.
\<close>

definition handleIncomingVideoMessage_run :: "int \<Rightarrow> byte list \<Rightarrow> TankRTC \<Rightarrow> reject + TankRTC" where
  "handleIncomingVideoMessage_run now data st =
     (case decodeVideoMessage data of
        Inl r \<Rightarrow> Inl r
      | Inr d \<Rightarrow>
         (case validateVideoFrame (config st) now d of
            Some r \<Rightarrow> Inl r
          | None \<Rightarrow> Inr (storeVideoFrame d st)))"

definition handleIncomingVideoMessage_exit :: "int \<Rightarrow> byte list \<Rightarrow> TankRTC \<Rightarrow> reject option" where
  "handleIncomingVideoMessage_exit now data st =
     (case handleIncomingVideoMessage_run now data st of Inl r \<Rightarrow> Some r | Inr st' \<Rightarrow> None)"

definition handleIncomingVideoMessage :: "int \<Rightarrow> byte list \<Rightarrow> TankRTC \<Rightarrow> TankRTC" where
  "handleIncomingVideoMessage now data st =
     (case handleIncomingVideoMessage_run now data st of Inl r \<Rightarrow> st | Inr st' \<Rightarrow> st')"

subsection \<open>The eviction sweep\<close>

text \<open>
  \<^verbatim>\<open>cleanupOldVideos\<close> walks the entries of the map and deletes the current entry when it is
  too old; deleting the current entry of a \<^verbatim>\<open>Map\<close> does not disturb the walk over the others.
\<close>

fun cleanupOldVideos_loop :: "int \<Rightarrow> (jsstring \<times> videoEntry) list \<Rightarrow> TankRTC \<Rightarrow> TankRTC" where
  "cleanupOldVideos_loop currentTime [] st = st"
| "cleanupOldVideos_loop currentTime ((clientID, videoData) # rest) st =
     (if frameAgeMs_exceeds currentTime (timestamp videoData) 2000 then
        cleanupOldVideos_loop currentTime rest
          ((emit (RevokeObjectURL (url videoData)) st)
             \<lparr> receivedVideos := Map_delete clientID (receivedVideos st) \<rparr>)
      else cleanupOldVideos_loop currentTime rest st)"

definition cleanupOldVideos :: "int \<Rightarrow> TankRTC \<Rightarrow> TankRTC" where
  "cleanupOldVideos now st =
     (let currentTime = now * 1000000
      in cleanupOldVideos_loop currentTime (receivedVideos st) st)"



subsection \<open>Sending a frame\<close>

text \<open>
  One tick of the capture timer.  What the platform answers is an input: whether the video
  element has non-zero dimensions, whether \<^verbatim>\<open>drawImage\<close> succeeds, the bytes of the blob handed
  to the \<^verbatim>\<open>toBlob\<close> callback (\<open>None\<close> for \<^verbatim>\<open>null\<close>), the bytes behind \<^verbatim>\<open>toDataURL\<close> in the Safari
  fallback (\<open>None\<close> when the fallback throws), and \<^verbatim>\<open>Date.now()\<close>.
\<close>

record capture =
  videoReady :: bool
  drawImage_ok :: bool
  toBlob :: "byte list option"
  toDataURL :: "byte list option"
  capture_now :: int

definition dataChannelOpen :: "TankRTC \<Rightarrow> bool" where
  "dataChannelOpen st =
     (case videoDataChannel st of None \<Rightarrow> False | Some dc \<Rightarrow> dc_readyState dc = OPEN)"

definition sendMessage :: "capture \<Rightarrow> byte list \<Rightarrow> TankRTC \<Rightarrow> TankRTC" where
  "sendMessage cap bytes st =
     (let message = videoFrameMessage (clientId st) (capture_now cap * 1000000)
                      (videoFrameNumber st) bytes;
          st1 = st\<lparr> videoFrameNumber := videoFrameNumber st + 1 \<rparr>
      in case videoDataChannel st1 of
           None \<Rightarrow> st1
         | Some dc \<Rightarrow> emit (DataChannelSendBinary (dc_id dc) message) st1)"

definition sendVideoFrame :: "capture \<Rightarrow> TankRTC \<Rightarrow> TankRTC" where
  "sendVideoFrame cap st =
     (if \<not> videoContext st \<or> videoElement st = None \<or> \<not> dataChannelOpen st then st
      else if \<not> videoReady cap then st
      else if \<not> drawImage_ok cap then st
      else (case toBlob cap of
              Some blob \<Rightarrow> sendMessage cap blob st
            | None \<Rightarrow>
                if isSafari st then
                  (case toDataURL cap of Some bytes \<Rightarrow> sendMessage cap bytes st | None \<Rightarrow> st)
                else st))"

subsection \<open>Starting and stopping the four legs\<close>

text \<open>
  The start methods are \<^verbatim>\<open>async\<close>.  They are embedded as one uninterrupted run in which the
  answers of the platform are inputs (\<open>env\<close>): whether \<^verbatim>\<open>getUserMedia\<close> resolves, whether the
  audio socket opens or errors, whether \<^verbatim>\<open>createOffer\<close> succeeds, whether an
  \<^verbatim>\<open>AudioContext\<close> can be made and whether it starts suspended, and after how many 100 ms waits
  of the polling loop the video data channel's \<^verbatim>\<open>onopen\<close> handler has run (\<open>None\<close>: not within
  the loop).  No other method of the object runs between the steps of a start, observers do
  not throw, and platform calls other than the ones listed do not throw.  The result
  \<open>Returned\<close> is a fulfilled promise, \<open>Threw\<close> a rejected one.  A media stream has one track.
  The field \<^verbatim>\<open>isConnected\<close> is written only by \<^verbatim>\<open>connect\<close>, \<^verbatim>\<open>disconnect\<close> and socket event
  handlers and is left out.
\<close>

datatype completion = Returned | Threw string

record env =
  getUserMedia_ok :: bool
  audioWs_opens :: bool
  createOffer_ok :: bool
  AudioContext_ok :: bool
  AudioContext_suspended :: bool
  dataChannel_opens_after :: "nat option"

definition isVideoConnectionReady :: "TankRTC \<Rightarrow> bool" where
  "isVideoConnectionReady st =
     ((case videoWsConnection st of None \<Rightarrow> False | Some ws \<Rightarrow> ws_readyState ws = OPEN)
      \<and> videoPeerConnection st \<noteq> None
      \<and> (case videoDataChannel st of None \<Rightarrow> False | Some dc \<Rightarrow> dc_readyState dc = OPEN))"

definition createAudioOffer :: "env \<Rightarrow> TankRTC \<Rightarrow> TankRTC" where
  "createAudioOffer e st =
     (case audioPeerConnection st of
        None \<Rightarrow> st
      | Some pc \<Rightarrow>
         (case audioWsConnection st of
            None \<Rightarrow> st
          | Some ws \<Rightarrow>
             if ws_readyState ws \<noteq> OPEN then st
             else if createOffer_ok e then emit (WebSocketSend (ws_id ws) ''offer'') st
             else st))"

definition initializeSafariAudioContext :: "env \<Rightarrow> TankRTC \<Rightarrow> TankRTC" where
  "initializeSafariAudioContext e st =
     (if \<not> isSafari st \<or> safariAudioContext st \<noteq> None then st
      else if \<not> AudioContext_ok e then
        handleError ''Failed to initialize Safari audio context'' st
      else
        (let c = fresh st;
             st1 = emit (NewAudioContext c) (st\<lparr> safariAudioContext := Some c, fresh := c + 1 \<rparr>)
         in if AudioContext_suspended e then st1\<lparr> safariUserInteractionNeeded := True \<rparr>
            else st1))"

definition cleanupSafariAudio :: "bool \<Rightarrow> TankRTC \<Rightarrow> TankRTC" where
  "cleanupSafariAudio closeContext st =
     (case safariAudioContext st of
        None \<Rightarrow> st
      | Some c \<Rightarrow>
         if \<not> isSafari st then st
         else
           (let st1 = st\<lparr> safariRemoteSource := False, safariRemoteGain := False,
                          safariGainNode := False, safariAnalyser := False \<rparr>
            in if closeContext \<or> (\<not> isSendingAudio st1 \<and> \<not> isListeningAudio st1) then
                 (emit (AudioContextClose c) st1)
                   \<lparr> safariAudioContext := None, safariUserInteractionNeeded := False \<rparr>
               else st1))"

definition closeAudioWs :: "TankRTC \<Rightarrow> TankRTC" where
  "closeAudioWs st =
     (case audioWsConnection st of
        None \<Rightarrow> st
      | Some ws \<Rightarrow> (emit (WebSocketClose (ws_id ws)) st)\<lparr> audioWsConnection := None \<rparr>)"

definition closeAudioPc :: "TankRTC \<Rightarrow> TankRTC" where
  "closeAudioPc st =
     (case audioPeerConnection st of
        None \<Rightarrow> st
      | Some pc \<Rightarrow> (emit (PeerConnectionClose pc) st)\<lparr> audioPeerConnection := None \<rparr>)"

text \<open>
  \<^verbatim>\<open>initializeAudioConnection\<close> awaits a promise that the socket's \<^verbatim>\<open>onopen\<close> handler resolves,
  after creating a peer connection, and that its \<^verbatim>\<open>onerror\<close> handler rejects.
\<close>

definition initializeAudioConnection :: "env \<Rightarrow> TankRTC \<Rightarrow> completion \<times> TankRTC" where
  "initializeAudioConnection e st =
     (if (case audioWsConnection st of None \<Rightarrow> False | Some ws \<Rightarrow> ws_readyState ws = OPEN)
      then (Returned, st)
      else
        (let w = fresh st;
             st1 = emit (NewWebSocket w)
                     (st\<lparr> audioWsConnection := Some \<lparr> ws_id = w, ws_readyState = CONNECTING \<rparr>,
                          fresh := w + 1 \<rparr>)
         in if audioWs_opens e then
              (let p = fresh st1
               in (Returned,
                   emit (NewRTCPeerConnection p)
                     (st1\<lparr> audioWsConnection := Some \<lparr> ws_id = w, ws_readyState = OPEN \<rparr>,
                           audioPeerConnection := Some p, fresh := p + 1 \<rparr>)))
            else
              (Threw ''WebSocket error'',
               st1\<lparr> audioWsConnection := Some \<lparr> ws_id = w, ws_readyState = CLOSED \<rparr> \<rparr>)))"

definition createPeerConnection :: "TankRTC \<Rightarrow> TankRTC" where
  "createPeerConnection st =
     (if audioPeerConnection st \<noteq> None then st
      else
        (let p = fresh st;
             st1 = emit (NewRTCPeerConnection p)
                     (st\<lparr> audioPeerConnection := Some p, fresh := p + 1 \<rparr>)
         in if isSafari st1 \<and> isListeningAudio st1 then emit (AddTransceiver p) st1 else st1))"

definition resetPeerConnection :: "TankRTC \<Rightarrow> TankRTC" where
  "resetPeerConnection st = createPeerConnection (closeAudioPc st)"

definition startSendingAudio :: "env \<Rightarrow> TankRTC \<Rightarrow> completion \<times> TankRTC" where
  "startSendingAudio e st =
     (if isSendingAudio st then (Returned, st)
      else if \<not> getUserMedia_ok e then
        (Threw ''getUserMedia'',
         handleError ''Failed to start sending audio'' (st\<lparr> isSendingAudio := False \<rparr>))
      else
        (let m = fresh st;
             st1 = st\<lparr> localStream := Some m, fresh := m + 1, isSendingAudio := True \<rparr>;
             st2 = closeAudioPc (closeAudioWs st1)
         in case initializeAudioConnection e st2 of
              (Threw err, st3) \<Rightarrow>
                (Threw err,
                 handleError ''Failed to start sending audio'' (st3\<lparr> isSendingAudio := False \<rparr>))
            | (Returned, st3) \<Rightarrow>
                (let st4 = resetPeerConnection st3
                 in case audioPeerConnection st4 of
                      None \<Rightarrow>
                        (Threw ''TypeError'',
                         handleError ''Failed to start sending audio''
                           (st4\<lparr> isSendingAudio := False \<rparr>))
                    | Some pc \<Rightarrow>
                        (let st5 = emit (AddTrack pc m) st4;
                             st6 = createAudioOffer e st5
                         in (Returned, emit (OnAudioStateChange ''sending'' True) st6)))))"

text \<open>
  The stop methods are straight-line code; each block of a method is a definition of its own
  here, in source order: the notice to the server, the release of the stream, and so on.
\<close>

definition sendStopSending :: "TankRTC \<Rightarrow> TankRTC" where
  "sendStopSending st =
     (case audioWsConnection st of
        None \<Rightarrow> st
      | Some ws \<Rightarrow>
          if ws_readyState ws = OPEN \<and> clientId st \<noteq> []
          then emit (WebSocketSend (ws_id ws) ''stop-sending'') st
          else st)"

text \<open>
  Which tracks the senders of a peer connection hold is state of the platform object, not of
  the controller.  It is read off the calls made so far: \<^verbatim>\<open>addTrack\<close> gives the connection a
  sender holding the track, \<^verbatim>\<open>removeTrack\<close> takes the track off its sender.  \<open>getSenders pc es\<close>
  lists the tracks held by the senders of connection \<open>pc\<close> after the calls recorded in \<open>es\<close>;
  the test \<^verbatim>\<open>getSenders().find(s => s.track === track)\<close> of lines 400--401 is membership in
  that list.
\<close>

fun senders_after :: "nat \<Rightarrow> nat list \<Rightarrow> effect \<Rightarrow> nat list" where
  "senders_after pc ts (AddTrack q m) = (if q = pc then ts @ [m] else ts)"
| "senders_after pc ts (RemoveTrack q m) = (if q = pc then removeAll m ts else ts)"
| "senders_after pc ts e = ts"

definition getSenders :: "nat \<Rightarrow> effect list \<Rightarrow> nat list" where
  "getSenders pc es = foldl (senders_after pc) [] es"

definition releaseLocalStream :: "TankRTC \<Rightarrow> TankRTC" where
  "releaseLocalStream st =
     (case localStream st of
        None \<Rightarrow> st
      | Some m \<Rightarrow>
          (let st1 = emit (TrackStop m) st;
               st2 = (case audioPeerConnection st1 of
                        None \<Rightarrow> st1
                      | Some pc \<Rightarrow>
                          if m \<in> set (getSenders pc (effects st1))
                          then emit (RemoveTrack pc m) st1
                          else st1)
           in st2\<lparr> localStream := None \<rparr>))"

definition stopSendingAudio :: "TankRTC \<Rightarrow> TankRTC" where
  "stopSendingAudio st =
     (let st1 = sendStopSending st;
          st2 = releaseLocalStream st1;
          st3 = st2\<lparr> isSendingAudio := False \<rparr>;
          st4 = cleanupSafariAudio False st3
      in emit (OnAudioStateChange ''sending'' False) st4)"

definition startListeningAudio :: "env \<Rightarrow> TankRTC \<Rightarrow> completion \<times> TankRTC" where
  "startListeningAudio e st =
     (if isListeningAudio st then (Returned, st)
      else
        (let st0 = (if isSafari st then initializeSafariAudioContext e st else st);
             st1 = st0\<lparr> isListeningAudio := True \<rparr>;
             st2 = closeAudioPc (closeAudioWs st1)
         in case initializeAudioConnection e st2 of
              (Threw err, st3) \<Rightarrow>
                (Returned,
                 handleError ''Failed to start listening audio''
                   (st3\<lparr> isListeningAudio := False \<rparr>))
            | (Returned, st3) \<Rightarrow>
                (let st4 = resetPeerConnection st3
                 in case audioPeerConnection st4 of
                      None \<Rightarrow>
                        (Returned,
                         handleError ''Failed to start listening audio''
                           (st4\<lparr> isListeningAudio := False \<rparr>))
                    | Some pc \<Rightarrow>
                        (let st5 = (case localStream st4 of
                                      None \<Rightarrow> st4
                                    | Some m \<Rightarrow>
                                        if isSendingAudio st4 then emit (AddTrack pc m) st4
                                        else st4);
                             st6 = createAudioOffer e st5
                         in (Returned, emit (OnAudioStateChange ''listening'' True) st6)))))"

definition releaseRemoteAudio :: "TankRTC \<Rightarrow> TankRTC" where
  "releaseRemoteAudio st =
     (case remoteAudioElement st of
        None \<Rightarrow> st
      | Some a \<Rightarrow> (emit (AudioElementPause a) st)\<lparr> remoteAudioElement := None \<rparr>)"

definition stopListeningAudio :: "TankRTC \<Rightarrow> TankRTC" where
  "stopListeningAudio st =
     (let st1 = st\<lparr> isListeningAudio := False \<rparr>;
          st2 = emit (OnAudioStateChange ''listening'' False) st1;
          st3 = releaseRemoteAudio st2
      in cleanupSafariAudio False st3)"

text \<open>
  \<^verbatim>\<open>initializeVideoConnection\<close> returns at once when socket, peer connection and data channel
  are all there and open (the test of \<^verbatim>\<open>isVideoConnectionReady\<close>, written out again in the
  source); otherwise it assigns a new socket and a new peer connection to the two fields.
\<close>

definition initializeVideoConnection :: "TankRTC \<Rightarrow> TankRTC" where
  "initializeVideoConnection st =
     (if isVideoConnectionReady st then st
      else
        (let w = fresh st;
             st1 = emit (NewWebSocket w)
                     (st\<lparr> videoWsConnection := Some \<lparr> ws_id = w, ws_readyState = CONNECTING \<rparr>,
                          fresh := w + 1 \<rparr>);
             p = fresh st1
         in emit (NewRTCPeerConnection p)
              (st1\<lparr> videoPeerConnection := Some p, fresh := p + 1 \<rparr>)))"

text \<open>
  What happens during the \<open>k\<close>-th 100 ms wait of the polling loop: if that is when the
  negotiation completes, the socket has opened, the offer has gone out and the handler
  \<^verbatim>\<open>dataChannel.onopen\<close> has stored the channel; otherwise nothing.
\<close>

definition sleep100 :: "env \<Rightarrow> nat \<Rightarrow> TankRTC \<Rightarrow> TankRTC" where
  "sleep100 e k st =
     (if dataChannel_opens_after e = Some k then
        (let st1 = (case videoWsConnection st of
                      None \<Rightarrow> st
                    | Some ws \<Rightarrow>
                        emit (WebSocketSend (ws_id ws) ''offer'')
                          (st\<lparr> videoWsConnection := Some (ws\<lparr> ws_readyState := OPEN \<rparr>) \<rparr>));
             c = fresh st1
         in st1\<lparr> videoDataChannel := Some \<lparr> dc_id = c, dc_readyState = OPEN \<rparr>,
                 fresh := c + 1 \<rparr>)
      else st)"

function waitForDataChannel :: "env \<Rightarrow> nat \<Rightarrow> TankRTC \<Rightarrow> completion \<times> TankRTC" where
  "waitForDataChannel e attempts st =
     (if dataChannelOpen st then (Returned, st)
      else
        (let st1 = sleep100 e (attempts + 1) st;
             attempts1 = attempts + 1
         in if attempts1 \<ge> 50 then
              (Threw ''Video data channel failed to open within 5 seconds'', st1)
            else waitForDataChannel e attempts1 st1))"
  by pat_completeness auto
termination
  by (relation "measure (\<lambda>(e, attempts, st). 50 - attempts)") auto

declare waitForDataChannel.simps [simp del]

definition awaitVideoConnection :: "env \<Rightarrow> TankRTC \<Rightarrow> completion \<times> TankRTC" where
  "awaitVideoConnection e st =
     (let st1 = initializeVideoConnection st
      in if \<not> isVideoConnectionReady st1 then waitForDataChannel e 0 st1 else (Returned, st1))"

definition startSendingVideo :: "env \<Rightarrow> TankRTC \<Rightarrow> completion \<times> TankRTC" where
  "startSendingVideo e st =
     (if isSendingVideo st then (Returned, st)
      else if \<not> getUserMedia_ok e then
        (Returned, handleError ''Failed to start sending video'' st)
      else
        (let m = fresh st;
             st1 = st\<lparr> fresh := m + 1, videoCanvas := True, videoContext := True,
                       videoElement := Some m \<rparr>;
             st2 = st1\<lparr> isSendingVideo := True \<rparr>
         in case awaitVideoConnection e st2 of
              (Threw err, st3) \<Rightarrow> (Returned, handleError ''Failed to start sending video'' st3)
            | (Returned, st3) \<Rightarrow>
                (let t = fresh st3;
                     st4 = emit (SetInterval t) (st3\<lparr> videoInterval := Some t, fresh := t + 1 \<rparr>)
                 in (Returned, emit (OnVideoStateChange ''sending'' True) st4))))"

definition closeVideoConnection :: "TankRTC \<Rightarrow> TankRTC" where
  "closeVideoConnection st =
     (let st1 = (case videoPeerConnection st of
                   None \<Rightarrow> st
                 | Some pc \<Rightarrow> (emit (PeerConnectionClose pc) st)\<lparr> videoPeerConnection := None \<rparr>);
          st2 = (case videoWsConnection st1 of
                   None \<Rightarrow> st1
                 | Some ws \<Rightarrow> (emit (WebSocketClose (ws_id ws)) st1)\<lparr> videoWsConnection := None \<rparr>)
      in st2\<lparr> videoDataChannel := None \<rparr>)"

definition closeVideoIfIdle :: "TankRTC \<Rightarrow> TankRTC" where
  "closeVideoIfIdle st =
     (if \<not> isSendingVideo st \<and> \<not> isViewingVideo st then closeVideoConnection st else st)"

definition sendStopVideo :: "TankRTC \<Rightarrow> TankRTC" where
  "sendStopVideo st =
     (case videoDataChannel st of
        None \<Rightarrow> st
      | Some dc \<Rightarrow>
          if dc_readyState dc = OPEN
          then emit (DataChannelSendText (dc_id dc) ''stop-video'') st
          else st)"

definition clearVideoInterval :: "TankRTC \<Rightarrow> TankRTC" where
  "clearVideoInterval st =
     (case videoInterval st of
        None \<Rightarrow> st
      | Some t \<Rightarrow> (emit (ClearInterval t) st)\<lparr> videoInterval := None \<rparr>)"

definition releaseVideoElement :: "TankRTC \<Rightarrow> TankRTC" where
  "releaseVideoElement st =
     (case videoElement st of
        None \<Rightarrow> st
      | Some m \<Rightarrow> (emit (TrackStop m) st)\<lparr> videoElement := None \<rparr>)"

definition stopSendingVideo :: "TankRTC \<Rightarrow> TankRTC" where
  "stopSendingVideo st =
     (let st1 = sendStopVideo st;
          st2 = clearVideoInterval st1;
          st3 = releaseVideoElement st2;
          st4 = st3\<lparr> videoCanvas := False, videoContext := False, isSendingVideo := False \<rparr>;
          st5 = closeVideoIfIdle st4
      in emit (OnVideoStateChange ''sending'' False) st5)"

definition startViewingVideo :: "env \<Rightarrow> TankRTC \<Rightarrow> completion \<times> TankRTC" where
  "startViewingVideo e st =
     (if isViewingVideo st then (Returned, st)
      else
        (let st1 = st\<lparr> isViewingVideo := True \<rparr>
         in case awaitVideoConnection e st1 of
              (Threw err, st2) \<Rightarrow> (Returned, handleError ''Failed to start viewing video'' st2)
            | (Returned, st2) \<Rightarrow>
                (let t = fresh st2;
                     st3 = emit (SetInterval t)
                             (st2\<lparr> videoCleanupInterval := Some t, fresh := t + 1 \<rparr>)
                 in (Returned, emit (OnVideoStateChange ''viewing'' True) st3))))"

definition clearCleanupInterval :: "TankRTC \<Rightarrow> TankRTC" where
  "clearCleanupInterval st =
     (case videoCleanupInterval st of
        None \<Rightarrow> st
      | Some t \<Rightarrow> (emit (ClearInterval t) st)\<lparr> videoCleanupInterval := None \<rparr>)"

definition clearReceivedVideos :: "TankRTC \<Rightarrow> TankRTC" where
  "clearReceivedVideos st =
     (let st1 = foldl (\<lambda>s p. emit (OnVideoSourceRemove (fst p)) s) st (receivedVideos st);
          st2 = foldl (\<lambda>s p. emit (RevokeObjectURL (url (snd p))) s) st1 (receivedVideos st1)
      in st2\<lparr> receivedVideos := [] \<rparr>)"

definition stopViewingVideo :: "TankRTC \<Rightarrow> TankRTC" where
  "stopViewingVideo st =
     (let st1 = st\<lparr> isViewingVideo := False \<rparr>;
          st2 = clearCleanupInterval st1;
          st3 = clearReceivedVideos st2;
          st4 = closeVideoIfIdle st3
      in emit (OnVideoStateChange ''viewing'' False) st4)"

subsection \<open>Observations on a run\<close>

text \<open>
  What a run appended to the effects, which effects are leg-state notifications and which
  are error notifications.  \<open>unobserved\<close> relates the object before and after a piece of code
  that only appends effects, none of them a leg-state notification, and leaves the four leg
  flags alone; \<open>same_links\<close> says that the five connection fields are the same.
\<close>

definition new_effects :: "TankRTC \<Rightarrow> TankRTC \<Rightarrow> effect list" where
  "new_effects st st' = drop (length (effects st)) (effects st')"

fun is_state_change :: "effect \<Rightarrow> bool" where
  "is_state_change (OnAudioStateChange k a) = True"
| "is_state_change (OnVideoStateChange k a) = True"
| "is_state_change e = False"

fun is_error :: "effect \<Rightarrow> bool" where
  "is_error (OnError m) = True"
| "is_error e = False"

definition grows :: "TankRTC \<Rightarrow> TankRTC \<Rightarrow> bool" where
  "grows st st' = (take (length (effects st)) (effects st') = effects st)"

definition same_legs :: "TankRTC \<Rightarrow> TankRTC \<Rightarrow> bool" where
  "same_legs st st' =
     (isSendingAudio st' = isSendingAudio st \<and> isListeningAudio st' = isListeningAudio st
      \<and> isSendingVideo st' = isSendingVideo st \<and> isViewingVideo st' = isViewingVideo st)"

definition unobserved :: "TankRTC \<Rightarrow> TankRTC \<Rightarrow> bool" where
  "unobserved st st' =
     (grows st st' \<and> filter is_state_change (new_effects st st') = [] \<and> same_legs st st')"

definition same_links :: "TankRTC \<Rightarrow> TankRTC \<Rightarrow> bool" where
  "same_links st st' =
     (audioWsConnection st' = audioWsConnection st
      \<and> audioPeerConnection st' = audioPeerConnection st
      \<and> videoWsConnection st' = videoWsConnection st
      \<and> videoPeerConnection st' = videoPeerConnection st
      \<and> videoDataChannel st' = videoDataChannel st)"

subsection \<open>Example data\<close>

text \<open>
  The client id \<^verbatim>\<open>"p1"\<close>, a twelve-byte JPEG prefix (SOI, then a SOF0 segment declaring
  64 by 64 pixels), a controller as constructed for client \<^verbatim>\<open>"me"\<close>, and that controller after
  one frame of \<^verbatim>\<open>"p1"\<close> stamped 0 has been stored.
\<close>

definition p1 :: jsstring where
  "p1 = [0x70, 0x31]"

definition jpeg64 :: "byte list" where
  "jpeg64 = [0xFF, 0xD8, 0xFF, 0xC0, 0x00, 0x0B, 0x08, 0x00, 0x40, 0x00, 0x40, 0x00]"

definition viewer :: TankRTC where
  "viewer = new_TankRTC [0x6D, 0x65] DEFAULT_CONFIG False"

definition viewer_with_p1 :: TankRTC where
  "viewer_with_p1 =
     viewer\<lparr> receivedVideos := [(p1, \<lparr> url = 0, timestamp = 0, frameNumber = 7 \<rparr>)],
             fresh := 1,
             effects := [CreateObjectURL 0, OnVideoSourceAdd p1 0] \<rparr>"

text \<open>
  Three environments: one in which everything succeeds but the video data channel never
  opens, one in which it opens during the third wait, one in which the audio socket errors.
  Three controllers reached from the constructed one by a successful start: viewing video,
  sending video, listening to audio.
\<close>

definition never_opens :: env where
  "never_opens = \<lparr> getUserMedia_ok = True, audioWs_opens = True, createOffer_ok = True,
                   AudioContext_ok = True, AudioContext_suspended = False,
                   dataChannel_opens_after = None \<rparr>"

definition opens_soon :: env where
  "opens_soon = never_opens\<lparr> dataChannel_opens_after := Some 3 \<rparr>"

definition socket_fails :: env where
  "socket_fails = never_opens\<lparr> audioWs_opens := False \<rparr>"

definition viewing :: TankRTC where
  "viewing = snd (startViewingVideo opens_soon viewer)"

definition sending :: TankRTC where
  "sending = snd (startSendingVideo opens_soon viewer)"

definition listening :: TankRTC where
  "listening = snd (startListeningAudio opens_soon viewer)"

text \<open>
  Two controllers whose send-audio leg is idle although the microphone stream is held: the
  constructed one after a \<^verbatim>\<open>startSendingAudio\<close> whose socket errored, and that one after a
  successful \<^verbatim>\<open>startListeningAudio\<close>.
\<close>

definition mic_held :: TankRTC where
  "mic_held = snd (startSendingAudio socket_fails viewer)"

definition mic_held_listening :: TankRTC where
  "mic_held_listening = snd (startListeningAudio opens_soon mic_held)"

section \<open>Properties\<close>

subsection \<open>Big-endian fields\<close>

lemma be_nat_snoc: "be_nat (bs @ [b]) = be_nat bs * 256 + unat b"
  by (simp add: be_nat_def)

lemma length_be_bytes: "length (be_bytes n v) = n"
  by (induction n arbitrary: v) auto

lemma be_nat_be_bytes: "be_nat (be_bytes n v) = v mod 256 ^ n"
proof (induction n arbitrary: v)
  case 0
  show ?case by (simp add: be_nat_def)
next
  case (Suc n)
  have "unat (of_nat (v mod 256) :: byte) = v mod 256"
    by (simp add: unat_of_nat)
  then show ?case
    using Suc [of "v div 256"]
    by (simp add: be_nat_snoc mod_mult2_eq)
qed

lemma be_bytes_numeral:
  "be_bytes (numeral k) v = be_bytes (pred_numeral k) (v div 256) @ [of_nat (v mod 256)]"
  by (simp only: numeral_eq_Suc [of k] be_bytes.simps)

subsection \<open>Rule sets for running the definitions on concrete input\<close>

lemmas enc_simps = videoFrameMessage_def TextEncoder_encode_def utf8_encode_def utf8_encode_cp_def
  is_surrogate_def setUint32_def setBigUint64_def be_bytes_numeral

lemmas dec_simps = decodeVideoMessage_def getUint32_def getBigUint64_def slice_def be_nat_def
  TextDecoder_decode_def utf8_lead_def String_trim_def js_whitespace_def Let_def

lemmas val_simps = validateVideoFrame_def frameAgeMs_exceeds_def at_def getJPEGDimensions_def
  ToInt32_def js_between_def Let_def

lemmas strict_simps = getJPEGDimensions_strict_def index_def index2_def

lemma decode_p1_frame:
  "decodeVideoMessage (videoFrameMessage p1 0 7 jpeg64) =
     Inr \<lparr> d_clientID = p1, d_timestamp = 0, d_frameNumber = 7, d_videoData = jpeg64 \<rparr>"
  by (simp add: enc_simps dec_simps p1_def jpeg64_def)

lemma validate_p1_frame:
  "validateVideoFrame DEFAULT_CONFIG 0
     \<lparr> d_clientID = p1, d_timestamp = 0, d_frameNumber = 7, d_videoData = jpeg64 \<rparr> = None"
  by (simp add: val_simps jpeg64_def DEFAULT_CONFIG_def)

lemma store_p1_frame:
  "storeVideoFrame \<lparr> d_clientID = p1, d_timestamp = 0, d_frameNumber = 7, d_videoData = jpeg64 \<rparr>
     viewer = viewer_with_p1"
  by (simp add: storeVideoFrame_def viewer_def viewer_with_p1_def new_TankRTC_def emit_def
      Map_has_def Let_def)

lemma config_viewer: "config viewer = DEFAULT_CONFIG"
  by (simp add: viewer_def new_TankRTC_def)

lemma upsert_p1:
  "handleIncomingVideoMessage 0 (videoFrameMessage p1 0 7 jpeg64) viewer = viewer_with_p1"
  by (simp add: handleIncomingVideoMessage_def handleIncomingVideoMessage_run_def
      decode_p1_frame validate_p1_frame store_p1_frame config_viewer)

subsection \<open>The platform text codec\<close>

lemma shift_mod: "x < m \<Longrightarrow> (k * m + x) mod m = (x :: nat)"
  by simp

lemma cont_mod: "(0x80 + x mod 64) mod 64 = (x :: nat) mod 64"
  using shift_mod [of "x mod 64" 64 2] by simp

lemma cont_range: "\<not> (0x80 + x mod 64 < (0x80 :: nat))" "\<not> (0xBF < 0x80 + (x :: nat) mod 64)"
proof -
  have "x mod 64 < 64" by simp
  then show "\<not> (0xBF < 0x80 + x mod 64)" by linarith
qed simp

lemma div_div_64: "(c :: nat) div 64 div 64 = c div 4096" "c div 4096 div 64 = c div 262144"
  by (simp_all add: div_mult2_eq [symmetric])

lemma join_64: "(c :: nat) div 4096 * 64 + c div 64 mod 64 = c div 64"
  using div_mult_mod_eq [of "c div 64" 64] by (simp add: div_div_64)

lemma join_4096: "(c :: nat) div 262144 * 64 + c div 4096 mod 64 = c div 4096"
  using div_mult_mod_eq [of "c div 4096" 64] by (simp add: div_div_64)

lemma dec1:
  assumes "c < 0x80"
  shows "utf8_decode 0 0 0x80 0xBF (utf8_encode_cp c @ rest) = c # utf8_decode 0 0 0x80 0xBF rest"
  using assms by (simp add: utf8_encode_cp_def)

lemma dec2:
  assumes "0x80 \<le> c" "c < 0x800"
  shows "utf8_decode 0 0 0x80 0xBF (utf8_encode_cp c @ rest) = c # utf8_decode 0 0 0x80 0xBF rest"
proof -
  have x: "c div 64 < 32" "2 \<le> c div 64"
    using assms by linarith+
  have m: "(0xC0 + c div 64) mod 32 = c div 64"
    using shift_mod [of "c div 64" 32 6] x by simp
  have l: "utf8_lead (0xC0 + c div 64) = Some (1, c div 64, 0x80, 0xBF)"
    using x m by (simp add: utf8_lead_def)
  have e: "utf8_encode_cp c = [0xC0 + c div 64, 0x80 + c mod 64]"
    using assms by (simp add: utf8_encode_cp_def)
  show ?thesis
    unfolding e using l by (simp add: cont_mod cont_range)
qed

lemma dec3:
  assumes "0x800 \<le> c" "c < 0x10000" "\<not> is_surrogate c"
  shows "utf8_decode 0 0 0x80 0xBF (utf8_encode_cp c @ rest) = c # utf8_decode 0 0 0x80 0xBF rest"
proof -
  let ?b1 = "0xE0 + c div 4096"
  let ?lo = "if ?b1 = 0xE0 then 0xA0 else 0x80 :: nat"
  let ?hi = "if ?b1 = 0xED then 0x9F else 0xBF :: nat"
  have x: "c div 4096 < 16"
    using assms by linarith
  have m: "?b1 mod 16 = c div 4096"
    using shift_mod [of "c div 4096" 16 14] x by simp
  have l: "utf8_lead ?b1 = Some (2, c div 4096, ?lo, ?hi)"
    using x m by (simp add: utf8_lead_def)
  have lo: "?lo \<le> 0x80 + c div 64 mod 64"
  proof (cases "c div 4096 = 0")
    case True
    then have "c < 4096" by linarith
    with assms(1) have "32 \<le> c div 64" "c div 64 < 64" by linarith+
    then show ?thesis using True by simp
  next
    case False
    then show ?thesis by simp
  qed
  have hi: "0x80 + c div 64 mod 64 \<le> ?hi"
  proof (cases "c div 4096 = 13")
    case True
    then have "0xD000 \<le> c" "c < 0xE000" by linarith+
    with assms(3) have "c < 0xD800" by (simp add: is_surrogate_def)
    have "c div 64 mod 64 = c div 64 - 13 * 64"
      using join_64 [of c] True by simp
    moreover have "c div 64 < 0x360" using \<open>c < 0xD800\<close> by linarith
    ultimately have "c div 64 mod 64 < 32" by linarith
    then show ?thesis using True by simp
  next
    case False
    have "c div 64 mod 64 < 64" by simp
    then have "0x80 + c div 64 mod 64 \<le> 0xBF" by linarith
    then show ?thesis using False by simp
  qed
  have e: "utf8_encode_cp c = [?b1, 0x80 + c div 64 mod 64, 0x80 + c mod 64]"
    using assms by (simp add: utf8_encode_cp_def)
  have step: "utf8_decode 2 (c div 4096) ?lo ?hi ((0x80 + c div 64 mod 64) # (0x80 + c mod 64) # rest)
        = utf8_decode 1 (c div 64) 0x80 0xBF ((0x80 + c mod 64) # rest)"
    using lo hi by (simp add: cont_mod join_64 not_less [symmetric] del: not_less)
  show ?thesis
    unfolding e using l step by (simp add: cont_mod cont_range)
qed


lemma dec4:
  assumes "0x10000 \<le> c" "c < 0x110000"
  shows "utf8_decode 0 0 0x80 0xBF (utf8_encode_cp c @ rest) = c # utf8_decode 0 0 0x80 0xBF rest"
proof -
  let ?b1 = "0xF0 + c div 262144"
  let ?lo = "if ?b1 = 0xF0 then 0x90 else 0x80 :: nat"
  let ?hi = "if ?b1 = 0xF4 then 0x8F else 0xBF :: nat"
  have x: "c div 262144 < 5"
    using assms by linarith
  have m: "?b1 mod 8 = c div 262144"
    using shift_mod [of "c div 262144" 8 30] x by simp
  have l: "utf8_lead ?b1 = Some (3, c div 262144, ?lo, ?hi)"
    using x m by (simp add: utf8_lead_def)
  have lo: "?lo \<le> 0x80 + c div 4096 mod 64"
  proof (cases "c div 262144 = 0")
    case True
    then have "c < 262144" by linarith
    with assms(1) have "16 \<le> c div 4096" "c div 4096 < 64" by linarith+
    then show ?thesis using True by simp
  next
    case False
    then show ?thesis by simp
  qed
  have hi: "0x80 + c div 4096 mod 64 \<le> ?hi"
  proof (cases "c div 262144 = 4")
    case True
    have "c div 4096 mod 64 = c div 4096 - 4 * 64"
      using join_4096 [of c] True by simp
    moreover have "c div 4096 < 0x110" using assms(2) by linarith
    ultimately have "c div 4096 mod 64 < 16" by linarith
    then show ?thesis using True by simp
  next
    case False
    have "c div 4096 mod 64 < 64" by simp
    then have "0x80 + c div 4096 mod 64 \<le> 0xBF" by linarith
    then show ?thesis using False by simp
  qed
  have e: "utf8_encode_cp c =
             [?b1, 0x80 + c div 4096 mod 64, 0x80 + c div 64 mod 64, 0x80 + c mod 64]"
    using assms by (simp add: utf8_encode_cp_def)
  have step: "utf8_decode 3 (c div 262144) ?lo ?hi
                ((0x80 + c div 4096 mod 64) # (0x80 + c div 64 mod 64) # (0x80 + c mod 64) # rest)
        = utf8_decode 2 (c div 4096) 0x80 0xBF
                ((0x80 + c div 64 mod 64) # (0x80 + c mod 64) # rest)"
    using lo hi by (simp add: cont_mod join_4096 not_less [symmetric] del: not_less)
  have step2: "utf8_decode 2 (c div 4096) 0x80 0xBF
                ((0x80 + c div 64 mod 64) # (0x80 + c mod 64) # rest)
        = utf8_decode 1 (c div 64) 0x80 0xBF ((0x80 + c mod 64) # rest)"
    by (simp add: cont_mod cont_range join_64)
  show ?thesis
    unfolding e using l step step2 by (simp add: cont_mod cont_range)
qed

lemma decode_encode_cp:
  assumes "scalar c"
  shows "utf8_decode 0 0 0x80 0xBF (utf8_encode_cp c @ rest) = c # utf8_decode 0 0 0x80 0xBF rest"
proof -
  consider "c < 0x80" | "0x80 \<le> c" "c < 0x800" | "0x800 \<le> c" "c < 0x10000"
    | "0x10000 \<le> c" "c < 0x110000"
    using assms unfolding scalar_def by linarith
  then show ?thesis
    using assms by cases (simp_all add: dec1 dec2 dec3 dec4 scalar_def)
qed

lemma utf8_decode_encode:
  assumes "\<forall>c \<in> set s. scalar c"
  shows "utf8_decode 0 0 0x80 0xBF (utf8_encode s) = s"
  using assms
proof (induction s)
  case Nil
  show ?case by (simp add: utf8_encode_def)
next
  case (Cons c s)
  have "utf8_encode (c # s) = utf8_encode_cp c @ utf8_encode s"
    using Cons.prems by (simp add: utf8_encode_def scalar_def)
  then show ?case
    using Cons by (simp add: decode_encode_cp)
qed

lemma utf8_encode_cp_bytes:
  assumes "c < 0x110000"
  shows "\<forall>b \<in> set (utf8_encode_cp c). b < 256"
proof -
  have m: "\<And>x :: nat. 0x80 + x mod 64 < 256"
  proof -
    fix x :: nat
    have "x mod 64 < 64" by simp
    then show "0x80 + x mod 64 < 256" by linarith
  qed
  have "c < 0x800 \<Longrightarrow> 0xC0 + c div 64 < 256" by linarith
  moreover have "c < 0x10000 \<Longrightarrow> 0xE0 + c div 4096 < 256" by linarith
  moreover have "0xF0 + c div 262144 < 256" using assms by linarith
  ultimately show ?thesis
    by (simp add: utf8_encode_cp_def m)
qed

lemma utf8_encode_bytes:
  assumes "\<forall>c \<in> set s. scalar c"
  shows "\<forall>b \<in> set (utf8_encode s). b < 256"
  using assms utf8_encode_cp_bytes
  by (auto simp: utf8_encode_def scalar_def)

lemma unat_of_nat_bytes:
  assumes "\<forall>b \<in> set bs. b < 256"
  shows "map unat (map of_nat bs :: byte list) = bs"
  using assms by (induction bs) (simp_all add: unat_of_nat)

lemma utf8_encode_cp_nonempty: "utf8_encode_cp c \<noteq> []"
  by (simp add: utf8_encode_cp_def)

lemma no_bom:
  assumes "scalar c" "c \<noteq> 0xFEFF"
  shows "take 3 (utf8_encode_cp c @ rest) \<noteq> [0xEF, 0xBB, 0xBF]"
proof (cases "0x800 \<le> c \<and> c < 0x10000")
  case True
  have e: "utf8_encode_cp c = [0xE0 + c div 4096, 0x80 + c div 64 mod 64, 0x80 + c mod 64]"
    using True by (simp add: utf8_encode_cp_def)
  show ?thesis
  proof
    assume "take 3 (utf8_encode_cp c @ rest) = [0xEF, 0xBB, 0xBF]"
    then have "c div 4096 = 15" "c div 64 mod 64 = 59" "c mod 64 = 63"
      unfolding e by simp_all
    then have "c = 0xFEFF"
      using join_64 [of c] div_mult_mod_eq [of c 64] by simp
    with assms(2) show False by simp
  qed
next
  case False
  then consider "c < 0x80" | "0x80 \<le> c" "c < 0x800" | "0x10000 \<le> c"
    by linarith
  then show ?thesis
  proof cases
    case 1
    then show ?thesis by (simp add: utf8_encode_cp_def)
  next
    case 2
    then have "c div 64 < 32" by linarith
    then show ?thesis using 2 by (simp add: utf8_encode_cp_def)
  next
    case 3
    then show ?thesis by (simp add: utf8_encode_cp_def)
  qed
qed

lemma TextDecoder_TextEncoder:
  assumes "\<forall>c \<in> set s. scalar c" and "s \<noteq> [] \<longrightarrow> hd s \<noteq> 0xFEFF"
  shows "TextDecoder_decode (TextEncoder_encode s) = s"
proof -
  have u: "map unat (TextEncoder_encode s) = utf8_encode s"
    unfolding TextEncoder_encode_def
    by (rule unat_of_nat_bytes) (rule utf8_encode_bytes [OF assms(1)])
  have b: "take 3 (utf8_encode s) \<noteq> [0xEF, 0xBB, 0xBF]"
  proof (cases s)
    case Nil
    then show ?thesis by (simp add: utf8_encode_def)
  next
    case (Cons c s')
    then have "utf8_encode s = utf8_encode_cp c @ utf8_encode s'" "scalar c" "c \<noteq> 0xFEFF"
      using assms by (simp_all add: utf8_encode_def scalar_def)
    then show ?thesis using no_bom [of c "utf8_encode s'"] by simp
  qed
  show ?thesis
    unfolding TextDecoder_decode_def Let_def u
    using b by (simp add: utf8_decode_encode [OF assms(1)])
qed

subsection \<open>Round trip of the envelope\<close>

lemma take_drop_fields:
  assumes "length a = 4" "length t = 8" "length q = 4"
  shows "take 4 (a @ i @ t @ q @ p) = a"
    and "slice (a @ i @ t @ q @ p) 4 (4 + length i) = i"
    and "slice (a @ i @ t @ q @ p) (4 + length i) (4 + length i + 8) = t"
    and "slice (a @ i @ t @ q @ p) (12 + length i) (12 + length i + 4) = q"
    and "slice (a @ i @ t @ q @ p) (16 + length i) (length (a @ i @ t @ q @ p)) = p"
  using assms by (simp_all add: slice_def)

lemma TextEncoder_nonempty: "s \<noteq> [] \<Longrightarrow> TextEncoder_encode s \<noteq> []"
  by (cases s) (simp_all add: TextEncoder_encode_def utf8_encode_def utf8_encode_cp_nonempty)

text \<open>
  Claim C1, as amended.  Let the client id be a sequence of Unicode scalar values that does
  not begin with U+FEFF, has a character that is not white space, and encodes to at most
  1000 bytes; let the timestamp be below \<open>2^64\<close>, the frame number below \<open>2^32\<close>, the payload
  non-empty, and the whole message at least 20 bytes long.  Then the header-parsing stage of
  the receiver, run on the message laid out by the sender, returns exactly the client id,
  timestamp, frame number and payload that went in.  The witness is the 64 by 64 frame of
  \<^verbatim>\<open>"p1"\<close>.  The counterexample gives four inputs that meet the conditions of the claim as first
  stated (identity of 1 to 1000 bytes, non-empty payload) and do not come back: the blank
  identity \<^verbatim>\<open>" "\<close> is refused, the 18-byte message of identity \<^verbatim>\<open>"p"\<close> with a one-byte payload
  is refused as shorter than 20 bytes, an identity beginning with U+FEFF comes back
  without it, and an identity that is a lone surrogate comes back as U+FFFD.
\<close>

theorem decode_encode_roundtrip:
  assumes sc: "list_all scalar cid"
      and bom: "hd cid \<noteq> 0xFEFF"
      and blank: "String_trim cid \<noteq> []"
      and len: "length (TextEncoder_encode cid) \<le> 1000"
      and ts: "0 \<le> ts" "ts < 2 ^ 64"
      and fn: "frameNo < 2 ^ 32"
      and pl: "payload \<noteq> []"
      and total: "20 \<le> length (videoFrameMessage cid ts frameNo payload)"
  shows "decodeVideoMessage (videoFrameMessage cid ts frameNo payload) =
           Inr \<lparr> d_clientID = cid, d_timestamp = ts, d_frameNumber = frameNo,
                 d_videoData = payload \<rparr>"
proof -
  let ?i = "TextEncoder_encode cid"
  let ?a = "setUint32 (length ?i)"
  let ?t = "setBigUint64 ts"
  let ?q = "setUint32 frameNo"
  let ?data = "?a @ ?i @ ?t @ ?q @ payload"
  have msg: "videoFrameMessage cid ts frameNo payload = ?data"
    by (simp add: videoFrameMessage_def Let_def)
  have la: "length ?a = 4" and lt: "length ?t = 8" and lq: "length ?q = 4"
    by (simp_all add: setUint32_def setBigUint64_def length_be_bytes)
  note f = take_drop_fields [OF la lt lq, of ?i payload]
  have ne: "cid \<noteq> []"
    using blank by (auto simp: String_trim_def)
  have n0: "0 < length ?i"
    using TextEncoder_nonempty [OF ne] by simp
  have ld: "length ?data = 16 + length ?i + length payload"
    using la lt lq by simp
  have va: "be_nat ?a = length ?i"
    using len by (simp add: setUint32_def be_nat_be_bytes)
  have vt: "int (be_nat ?t) = ts"
    using ts by (simp add: setBigUint64_def be_nat_be_bytes)
  have vq: "be_nat ?q = frameNo"
    using fn by (simp add: setUint32_def be_nat_be_bytes)
  have g0: "getUint32 ?data 0 = Inr (length ?i)"
    using f(1) va la by (simp add: getUint32_def slice_def)
  have g1: "getBigUint64 ?data (4 + length ?i) = Inr ts"
    using f(3) vt ld by (simp add: getBigUint64_def)
  have g2: "getUint32 ?data (12 + length ?i) = Inr frameNo"
    using f(4) vq ld by (simp add: getUint32_def)
  have id: "TextDecoder_decode (slice ?data 4 (4 + length ?i)) = cid"
    unfolding f(2) using sc bom by (simp add: TextDecoder_TextEncoder list_all_iff)
  have big: "\<not> length ?data < 20"
    using total unfolding msg by simp
  have pl': "slice ?data (16 + length ?i) (length ?data) = payload"
    by (rule f(5))
  show ?thesis
    unfolding msg decodeVideoMessage_def
    using big g0 g1 g2 id pl' n0 len ld blank ne pl
    by (simp add: Let_def)
qed

theorem decode_encode_roundtrip_witness:
  "list_all scalar p1 \<and> hd p1 \<noteq> 0xFEFF \<and> String_trim p1 \<noteq> []
   \<and> length (TextEncoder_encode p1) \<le> 1000
   \<and> (0 :: int) \<le> 1700000000000000000 \<and> (1700000000000000000 :: int) < 2 ^ 64
   \<and> (7 :: nat) < 2 ^ 32 \<and> jpeg64 \<noteq> []
   \<and> 20 \<le> length (videoFrameMessage p1 1700000000000000000 7 jpeg64)
   \<and> decodeVideoMessage (videoFrameMessage p1 1700000000000000000 7 jpeg64) =
         Inr \<lparr> d_clientID = p1, d_timestamp = 1700000000000000000, d_frameNumber = 7,
               d_videoData = jpeg64 \<rparr>"
proof -
  have sc: "list_all scalar p1"
    by (simp add: p1_def scalar_def is_surrogate_def)
  have bom: "hd p1 \<noteq> 0xFEFF"
    by (simp add: p1_def)
  have blank: "String_trim p1 \<noteq> []"
    by (simp add: p1_def String_trim_def js_whitespace_def)
  have len: "length (TextEncoder_encode p1) \<le> 1000"
    by (simp add: p1_def enc_simps)
  have ts: "(0 :: int) \<le> 1700000000000000000" "(1700000000000000000 :: int) < 2 ^ 64"
    by simp_all
  have fn: "(7 :: nat) < 2 ^ 32"
    by simp
  have pl: "jpeg64 \<noteq> []"
    by (simp add: jpeg64_def)
  have total: "20 \<le> length (videoFrameMessage p1 1700000000000000000 7 jpeg64)"
    by (simp add: p1_def jpeg64_def enc_simps)
  show ?thesis
    using decode_encode_roundtrip [OF sc bom blank len ts fn pl total] sc bom blank len pl total
    by simp
qed

theorem decode_encode_roundtrip_counterexample:
  "length (TextEncoder_encode [0x20]) = 1
   \<and> decodeVideoMessage (videoFrameMessage [0x20] 0 7 jpeg64) = Inl EmptyIdentity
   \<and> length (TextEncoder_encode [0x70]) = 1
   \<and> decodeVideoMessage (videoFrameMessage [0x70] 0 7 [0xFF]) = Inl Truncated
   \<and> length (TextEncoder_encode [0xFEFF, 0x70]) = 4
   \<and> decodeVideoMessage (videoFrameMessage [0xFEFF, 0x70] 0 7 jpeg64) =
         Inr \<lparr> d_clientID = [0x70], d_timestamp = 0, d_frameNumber = 7, d_videoData = jpeg64 \<rparr>
   \<and> length (TextEncoder_encode [0xD800]) = 3
   \<and> decodeVideoMessage (videoFrameMessage [0xD800] 0 7 jpeg64) =
         Inr \<lparr> d_clientID = [0xFFFD], d_timestamp = 0, d_frameNumber = 7, d_videoData = jpeg64 \<rparr>"
  by (simp add: enc_simps dec_simps jpeg64_def)

subsection \<open>Exits of the frame handler\<close>

lemma decode_idlen:
  assumes "20 \<le> length data"
  shows "decodeVideoMessage data = Inl InvalidIdentityLength \<longleftrightarrow>
     (be_nat (take 4 data) \<le> 0 \<or> be_nat (take 4 data) > 1000
      \<or> be_nat (take 4 data) + 16 > length data)"
  using assms
  by (auto simp: decodeVideoMessage_def getUint32_def getBigUint64_def slice_def Let_def
      split: sum.splits)

lemma validate_not_idlen: "validateVideoFrame cfg now d \<noteq> Some InvalidIdentityLength"
  by (auto simp: validateVideoFrame_def Let_def split: option.splits if_splits)

lemma exit_decode_reject:
  "decodeVideoMessage data = Inl r \<Longrightarrow> handleIncomingVideoMessage_exit now data st = Some r"
  by (simp add: handleIncomingVideoMessage_exit_def handleIncomingVideoMessage_run_def)

lemma exit_decode_ok:
  "decodeVideoMessage data = Inr d \<Longrightarrow>
   handleIncomingVideoMessage_exit now data st = validateVideoFrame (config st) now d"
  by (simp add: handleIncomingVideoMessage_exit_def handleIncomingVideoMessage_run_def
      split: option.splits)

lemma rejected_unchanged:
  "handleIncomingVideoMessage_exit now data st = Some r \<Longrightarrow>
   handleIncomingVideoMessage now data st = st"
  by (simp add: handleIncomingVideoMessage_exit_def handleIncomingVideoMessage_def
      split: sum.splits)

lemma validate_stale:
  "validateVideoFrame cfg now d = Some Stale \<longleftrightarrow>
   now * 1000000 - d_timestamp d > 1000 * 1000000"
  by (auto simp: validateVideoFrame_def frameAgeMs_exceeds_def Let_def
      split: option.splits if_splits)

text \<open>
  The handler's \<^verbatim>\<open>catch\<close> block is never entered: no step of the \<^verbatim>\<open>try\<close> block raises on any
  buffer, so every rejection is one of the handler's own early returns.
\<close>

lemma decode_never_catches: "decodeVideoMessage data \<noteq> Inl (Caught e)"
  by (auto simp: decodeVideoMessage_def getUint32_def getBigUint64_def Let_def
      split: sum.splits if_splits)

lemma validate_never_catches: "validateVideoFrame cfg now d \<noteq> Some (Caught e)"
  by (auto simp: validateVideoFrame_def Let_def split: option.splits if_splits)

lemma handler_never_catches: "handleIncomingVideoMessage_exit now data st \<noteq> Some (Caught e)"
proof (cases "decodeVideoMessage data")
  case (Inl r)
  then show ?thesis
    using decode_never_catches [of data e] by (simp add: exit_decode_reject)
next
  case (Inr d)
  then show ?thesis
    using validate_never_catches by (simp add: exit_decode_ok)
qed

text \<open>
  The scanner with checked indexing is the scanner of the source with every read checked:
  whenever it ends without an out-of-range read, it returns what the source's scanner returns.
\<close>

lemma strict_unfold:
  "getJPEGDimensions_loop_strict data offset = Inr r \<Longrightarrow>
     (if offset + 1 < length data then
        (case index data offset of
           Inl e \<Rightarrow> Inl e
         | Inr m0 \<Rightarrow>
            (case index data (offset + 1) of
               Inl e \<Rightarrow> Inl e
             | Inr marker \<Rightarrow>
                (if m0 = 0xFF \<and> marker \<noteq> 0x00 then
                   (if (0xC0 \<le> marker \<and> marker \<le> 0xC3) \<and> offset + 9 < length data then
                      (case index2 data (offset + 5) of
                         Inl e \<Rightarrow> Inl e
                       | Inr height \<Rightarrow>
                          (case index2 data (offset + 7) of
                             Inl e \<Rightarrow> Inl e
                           | Inr width \<Rightarrow> Inr (Some (width, height))))
                    else if offset + 2 < length data then
                      (case index2 data (offset + 2) of
                         Inl e \<Rightarrow> Inl e
                       | Inr len \<Rightarrow> getJPEGDimensions_loop_strict data (offset + (2 + len)))
                    else Inr None)
                 else getJPEGDimensions_loop_strict data (offset + 1))))
      else Inr None) = Inr r"
  by (subst (asm) getJPEGDimensions_loop_strict.simps)
    (simp del: getJPEGDimensions_loop_strict.simps)

lemma index_at: "index data i = Inr v \<longleftrightarrow> at data i = Some v"
  by (simp add: index_def at_def)

lemma index2_at:
  "index2 data i = Inr v \<Longrightarrow>
   ToInt32 (at data i) * 256 + ToInt32 (at data (i + 1)) = v"
  by (auto simp: index2_def index_def at_def ToInt32_def split: sum.splits if_splits)

lemma strict_scan_agrees:
  "getJPEGDimensions_loop_strict data offset = Inr r \<Longrightarrow>
   getJPEGDimensions_loop data offset = r"
  supply [simp del] = getJPEGDimensions_loop.simps getJPEGDimensions_loop_strict.simps
proof (induction data offset arbitrary: r rule: getJPEGDimensions_loop_strict.induct)
  case (1 data offset)
  note u = strict_unfold [OF "1.prems"]
  show ?case
  proof (cases "offset + 1 < length data")
    case False
    then have "r = None" using u by simp
    then show ?thesis
      using False by (subst getJPEGDimensions_loop.simps) simp
  next
    case True
    then obtain m0 marker where
      r: "index data offset = Inr m0" "index data (offset + 1) = Inr marker"
      by (auto simp: index_def)
    then have a: "at data offset = Some m0" "at data (offset + 1) = Some marker"
      by (simp_all add: index_at)
    show ?thesis
    proof (cases "m0 = 0xFF \<and> marker \<noteq> 0")
      case False
      then have "getJPEGDimensions_loop_strict data (offset + 1) = Inr r"
        using u True r by auto
      then have "getJPEGDimensions_loop data (offset + 1) = r"
        using "1.IH"(2) True r False by blast
      then show ?thesis
        using True a False by (subst getJPEGDimensions_loop.simps) auto
    next
      case mk: True
      show ?thesis
      proof (cases "(0xC0 \<le> marker \<and> marker \<le> 0xC3) \<and> offset + 9 < length data")
        case sof: True
        then obtain h w where
          hw: "index2 data (offset + 5) = Inr h" "index2 data (offset + 7) = Inr w"
          by (auto simp: index2_def index_def)
        then have "r = Some (w, h)"
          using u True r mk sof by auto
        moreover have "ToInt32 (at data (offset + 5)) * 256 + ToInt32 (at data (offset + 6)) = h"
          "ToInt32 (at data (offset + 7)) * 256 + ToInt32 (at data (offset + 8)) = w"
          using index2_at [OF hw(1)] index2_at [OF hw(2)] by (simp_all add: ac_simps eval_nat_numeral)
        ultimately show ?thesis
          using True a mk sof
          by (subst getJPEGDimensions_loop.simps) (auto simp: js_between_def Let_def)
      next
        case nosof: False
        show ?thesis
        proof (cases "offset + 2 < length data")
          case False
          then have "r = None" using u True r mk nosof by auto
          then show ?thesis
            using True a mk nosof False
            by (subst getJPEGDimensions_loop.simps) (auto simp: js_between_def Let_def)
        next
          case seg: True
          then obtain len where len: "index2 data (offset + 2) = Inr len"
            using u True r mk nosof by (auto split: sum.splits)
          have "getJPEGDimensions_loop_strict data (offset + (2 + len)) = Inr r"
            using u True r mk nosof seg len by auto
          then have "getJPEGDimensions_loop data (offset + (2 + len)) = r"
            using "1.IH"(1) True r mk nosof seg len by blast
          moreover have "ToInt32 (at data (offset + 2)) * 256 + ToInt32 (at data (offset + 3)) = len"
            using index2_at [OF len] by (simp add: ac_simps eval_nat_numeral)
          ultimately show ?thesis
            using True a mk nosof seg
            by (subst getJPEGDimensions_loop.simps) (auto simp: js_between_def Let_def)
        qed
      qed
    qed
  qed
qed

text \<open>
  Claim C8.  For a buffer of at least 20 bytes, the handler (and its header-parsing stage)
  leaves through the identity-length exit exactly when the big-endian number in the first
  four bytes is \<open>\<le> 0\<close>, greater than 1000, or so large that the 16 bytes of header around the
  identity no longer fit into the buffer; on that exit the controller, and with it the frame
  cache, is unchanged.  The witness is a buffer declaring an identity of 1001 bytes, followed
  by 1100 further bytes.
\<close>

theorem invalid_identity_length_iff:
  assumes "20 \<le> length data"
  shows "(decodeVideoMessage data = Inl InvalidIdentityLength \<longleftrightarrow>
            be_nat (take 4 data) \<le> 0 \<or> be_nat (take 4 data) > 1000
            \<or> be_nat (take 4 data) + 16 > length data)
       \<and> (handleIncomingVideoMessage_exit now data st = Some InvalidIdentityLength \<longleftrightarrow>
            be_nat (take 4 data) \<le> 0 \<or> be_nat (take 4 data) > 1000
            \<or> be_nat (take 4 data) + 16 > length data)
       \<and> (handleIncomingVideoMessage_exit now data st = Some InvalidIdentityLength \<longrightarrow>
            handleIncomingVideoMessage now data st = st)"
proof -
  have "handleIncomingVideoMessage_exit now data st = Some InvalidIdentityLength \<longleftrightarrow>
        decodeVideoMessage data = Inl InvalidIdentityLength"
  proof (cases "decodeVideoMessage data")
    case (Inl r)
    then show ?thesis by (simp add: exit_decode_reject)
  next
    case (Inr d)
    then show ?thesis by (simp add: exit_decode_ok validate_not_idlen)
  qed
  then show ?thesis
    using decode_idlen [OF assms] rejected_unchanged [of now data st InvalidIdentityLength]
    by blast
qed

theorem invalid_identity_length_iff_witness:
  "20 \<le> length ([0, 0, 3, 0xE9] @ replicate 1100 (0 :: byte))
   \<and> be_nat (take 4 ([0, 0, 3, 0xE9] @ replicate 1100 (0 :: byte))) = 1001
   \<and> decodeVideoMessage ([0, 0, 3, 0xE9] @ replicate 1100 0) = Inl InvalidIdentityLength
   \<and> handleIncomingVideoMessage_exit 0 ([0, 0, 3, 0xE9] @ replicate 1100 0) viewer_with_p1
        = Some InvalidIdentityLength
   \<and> handleIncomingVideoMessage 0 ([0, 0, 3, 0xE9] @ replicate 1100 0) viewer_with_p1
        = viewer_with_p1"
proof -
  have len: "20 \<le> length ([0, 0, 3, 0xE9] @ replicate 1100 (0 :: byte))"
    by simp
  have n: "be_nat (take 4 ([0, 0, 3, 0xE9] @ replicate 1100 (0 :: byte))) = 1001"
    by (simp add: be_nat_def)
  show ?thesis
    using invalid_identity_length_iff [OF len, of 0 viewer_with_p1] len n by simp
qed

text \<open>
  Claim C9.  For every message whose header parses, the handler leaves through the
  staleness exit exactly when \<^verbatim>\<open>Date.now()\<close> in nanoseconds minus the capture timestamp is more
  than 1000 ms (the threshold is the constant 1000 of the source); on that exit the
  controller is unchanged.  In particular a frame captured 1500 ms before now is dropped and
  the cache keeps what it had.  The witness sends the frame of \<^verbatim>\<open>"p1"\<close> stamped 0 to a
  controller that already caches \<^verbatim>\<open>"p1"\<close>, at 1500 ms and at 1000 ms.
\<close>

theorem stale_iff_older_than_1000ms:
  assumes "decodeVideoMessage data = Inr d"
  shows "(handleIncomingVideoMessage_exit now data st = Some Stale \<longleftrightarrow>
            now * 1000000 - d_timestamp d > 1000 * 1000000)
       \<and> (handleIncomingVideoMessage_exit now data st = Some Stale \<longrightarrow>
            handleIncomingVideoMessage now data st = st)
       \<and> (now * 1000000 - d_timestamp d = 1500 * 1000000 \<longrightarrow>
            handleIncomingVideoMessage_exit now data st = Some Stale
            \<and> receivedVideos (handleIncomingVideoMessage now data st) = receivedVideos st)"
proof -
  have a: "handleIncomingVideoMessage_exit now data st = Some Stale \<longleftrightarrow>
            now * 1000000 - d_timestamp d > 1000 * 1000000"
    using assms by (simp add: exit_decode_ok validate_stale)
  have b: "handleIncomingVideoMessage_exit now data st = Some Stale \<longrightarrow>
            handleIncomingVideoMessage now data st = st"
    using rejected_unchanged [of now data st Stale] by blast
  from a b show ?thesis by simp
qed

theorem stale_iff_older_than_1000ms_witness:
  "decodeVideoMessage (videoFrameMessage p1 0 7 jpeg64)
     = Inr \<lparr> d_clientID = p1, d_timestamp = 0, d_frameNumber = 7, d_videoData = jpeg64 \<rparr>
   \<and> handleIncomingVideoMessage_exit 1500 (videoFrameMessage p1 0 7 jpeg64) viewer_with_p1
        = Some Stale
   \<and> handleIncomingVideoMessage 1500 (videoFrameMessage p1 0 7 jpeg64) viewer_with_p1
        = viewer_with_p1
   \<and> handleIncomingVideoMessage_exit 1000 (videoFrameMessage p1 0 7 jpeg64) viewer_with_p1
        \<noteq> Some Stale"
  using stale_iff_older_than_1000ms [OF decode_p1_frame, of 1500 viewer_with_p1]
    stale_iff_older_than_1000ms [OF decode_p1_frame, of 1000 viewer_with_p1]
    decode_p1_frame
  by simp

text \<open>
  Claim C10.  The scanner guards the two-byte segment length at \<open>offset + 2\<close> and
  \<open>offset + 3\<close> with the test \<^verbatim>\<open>offset + 2 < data.byteLength\<close> only.  On the five-byte payload
  FF D8 FF E0 00 the embedding in which an index outside the array is an error stops at
  index 5, one past the end; JavaScript reads \<^verbatim>\<open>undefined\<close> there, takes it as 0 and the
  scanner returns \<^verbatim>\<open>null\<close>, so the handler drops the frame as unparseable and raises nothing.
\<close>

theorem jpeg_scanner_reads_past_end:
  "length [0xFF, 0xD8, 0xFF, 0xE0, 0x00 :: byte] = 5
   \<and> getJPEGDimensions_strict [0xFF, 0xD8, 0xFF, 0xE0, 0x00] = Inl (OutOfRange 5)
   \<and> getJPEGDimensions [0xFF, 0xD8, 0xFF, 0xE0, 0x00] = None
   \<and> handleIncomingVideoMessage_exit 0
        (videoFrameMessage p1 0 7 [0xFF, 0xD8, 0xFF, 0xE0, 0x00]) viewer
        = Some UnparseableContainer"
  by (simp add: strict_simps enc_simps dec_simps val_simps p1_def
      handleIncomingVideoMessage_exit_def handleIncomingVideoMessage_run_def config_viewer
      DEFAULT_CONFIG_def)

text \<open>
  Claim C5.  A controller caches a frame of \<^verbatim>\<open>"p1"\<close> under blob URL 0.  A second valid frame of
  \<^verbatim>\<open>"p1"\<close> arrives 33 ms later: the entry is overwritten with the new URL 1, the observer of
  frame updates is told, and URL 0 is not revoked; no reference to it is left in the
  controller.
\<close>

theorem upsert_does_not_revoke:
  "handleIncomingVideoMessage 33 (videoFrameMessage p1 33000000 8 jpeg64) viewer_with_p1
     = viewer_with_p1
         \<lparr> receivedVideos := [(p1, \<lparr> url = 1, timestamp = 33000000, frameNumber = 8 \<rparr>)],
           fresh := 2,
           effects := [CreateObjectURL 0, OnVideoSourceAdd p1 0,
                       CreateObjectURL 1, OnVideoFrameUpdate p1 1] \<rparr>"
  by (simp add: enc_simps dec_simps val_simps p1_def jpeg64_def
      handleIncomingVideoMessage_def handleIncomingVideoMessage_run_def
      storeVideoFrame_def viewer_def viewer_with_p1_def new_TankRTC_def emit_def
      Map_has_def DEFAULT_CONFIG_def)

subsection \<open>The sweep\<close>

lemma loop_receivedVideos:
  "receivedVideos (cleanupOldVideos_loop t es st) =
     filter (\<lambda>p. \<not> (\<exists>e \<in> set es. fst e = fst p
                        \<and> frameAgeMs_exceeds t (timestamp (snd e)) 2000))
       (receivedVideos st)"
proof (induction es arbitrary: st)
  case Nil
  then show ?case by simp
next
  case (Cons e es)
  obtain k v where e: "e = (k, v)" by (cases e)
  show ?case
  proof (cases "frameAgeMs_exceeds t (timestamp v) 2000")
    case True
    have "receivedVideos (cleanupOldVideos_loop t (e # es) st) =
          filter (\<lambda>p. \<not> (\<exists>e \<in> set es. fst e = fst p
                             \<and> frameAgeMs_exceeds t (timestamp (snd e)) 2000))
            (filter (\<lambda>p. fst p \<noteq> k) (receivedVideos st))"
      using True by (simp add: e Cons.IH Map_delete_def)
    also have "\<dots> = filter (\<lambda>p. \<not> (\<exists>e \<in> set ((k, v) # es). fst e = fst p
                        \<and> frameAgeMs_exceeds t (timestamp (snd e)) 2000)) (receivedVideos st)"
      unfolding filter_filter using True by (intro filter_cong) auto
    finally show ?thesis by (simp add: e)
  next
    case False
    have "receivedVideos (cleanupOldVideos_loop t (e # es) st) =
          filter (\<lambda>p. \<not> (\<exists>e \<in> set es. fst e = fst p
                             \<and> frameAgeMs_exceeds t (timestamp (snd e)) 2000))
            (receivedVideos st)"
      using False by (simp add: e Cons.IH)
    also have "\<dots> = filter (\<lambda>p. \<not> (\<exists>e \<in> set ((k, v) # es). fst e = fst p
                        \<and> frameAgeMs_exceeds t (timestamp (snd e)) 2000)) (receivedVideos st)"
      using False by (intro filter_cong) auto
    finally show ?thesis by (simp add: e)
  qed
qed

lemma loop_effects:
  "effects (cleanupOldVideos_loop t es st) =
     effects st @ map (\<lambda>e. RevokeObjectURL (url (snd e)))
                      (filter (\<lambda>e. frameAgeMs_exceeds t (timestamp (snd e)) 2000) es)"
proof (induction es arbitrary: st)
  case Nil
  then show ?case by simp
next
  case (Cons e es)
  obtain k v where e: "e = (k, v)" by (cases e)
  show ?case
    unfolding e
    by (simp add: Cons.IH emit_def)
qed

lemma distinct_keys_same:
  assumes "distinct (map fst m)" "p \<in> set m" "e \<in> set m" "fst e = fst p"
  shows "e = p"
  using assms by (metis eq_key_imp_eq_value prod.collapse)

lemma cleanup_receivedVideos:
  assumes "distinct (map fst (receivedVideos st))"
  shows "receivedVideos (cleanupOldVideos now st) =
         filter (\<lambda>e. \<not> frameAgeMs_exceeds (now * 1000000) (timestamp (snd e)) 2000)
           (receivedVideos st)"
proof -
  have "\<And>p. p \<in> set (receivedVideos st) \<Longrightarrow>
      (\<exists>e \<in> set (receivedVideos st). fst e = fst p
           \<and> frameAgeMs_exceeds (now * 1000000) (timestamp (snd e)) 2000)
      \<longleftrightarrow> frameAgeMs_exceeds (now * 1000000) (timestamp (snd p)) 2000"
    using distinct_keys_same [OF assms] by blast
  then show ?thesis
    unfolding cleanupOldVideos_def Let_def loop_receivedVideos
    by (intro filter_cong) auto
qed

lemma cleanup_effects:
  "effects (cleanupOldVideos now st) =
     effects st @ map (\<lambda>e. RevokeObjectURL (url (snd e)))
        (filter (\<lambda>e. frameAgeMs_exceeds (now * 1000000) (timestamp (snd e)) 2000)
           (receivedVideos st))"
  by (simp add: cleanupOldVideos_def Let_def loop_effects)

lemma kept_has:
  assumes "distinct (map fst m)" and "(k, v) \<in> set m"
  shows "Map_has k (filter (\<lambda>e. \<not> P e) m) \<longleftrightarrow> \<not> P (k, v)"
proof
  assume "Map_has k (filter (\<lambda>e. \<not> P e) m)"
  then obtain e where e: "e \<in> set m" "\<not> P e" "fst e = k"
    unfolding Map_has_def by auto
  have "e = (k, v)"
    by (rule distinct_keys_same [OF assms(1) assms(2) e(1)]) (simp add: e(3))
  with e(2) show "\<not> P (k, v)" by simp
next
  assume "\<not> P (k, v)"
  with assms(2) have "(k, v) \<in> set (filter (\<lambda>e. \<not> P e) m)" by simp
  then have "fst (k, v) \<in> fst ` set (filter (\<lambda>e. \<not> P e) m)" by (rule imageI)
  then show "Map_has k (filter (\<lambda>e. \<not> P e) m)"
    unfolding Map_has_def by simp
qed

lemma kept_get:
  assumes "distinct (map fst m)" and "(k, v) \<in> set m" and "\<not> P (k, v)"
  shows "Map_get k (filter (\<lambda>e. \<not> P e) m) = Some v"
proof -
  have "distinct (map fst (filter (\<lambda>e. \<not> P e) m))"
    using assms(1) by (rule distinct_map_filter)
  moreover have "(k, v) \<in> set (filter (\<lambda>e. \<not> P e) m)"
    using assms(2,3) by simp
  ultimately show ?thesis
    unfolding Map_get_def by (rule map_of_is_SomeI)
qed

lemma evicted_revoked:
  assumes "(k, v) \<in> set (receivedVideos st)"
      and "frameAgeMs_exceeds (now * 1000000) (timestamp v) 2000"
  shows "RevokeObjectURL (url v)
           \<in> set (drop (length (effects st)) (effects (cleanupOldVideos now st)))"
proof -
  have "(k, v) \<in> set (filter (\<lambda>e. frameAgeMs_exceeds (now * 1000000) (timestamp (snd e)) 2000)
                          (receivedVideos st))"
    using assms by simp
  then have "RevokeObjectURL (url (snd (k, v))) \<in>
     (\<lambda>e. RevokeObjectURL (url (snd e))) `
        set (filter (\<lambda>e. frameAgeMs_exceeds (now * 1000000) (timestamp (snd e)) 2000)
               (receivedVideos st))"
    by (rule imageI)
  then show ?thesis
    by (simp add: cleanup_effects)
qed

text \<open>
  Claim C7.  The map has unique keys.  For every entry of the map, the sweep run at
  \<^verbatim>\<open>Date.now() = now\<close> removes the entry exactly when \<open>now\<close> in nanoseconds minus the stored
  timestamp is more than 2000 ms; a removed entry's blob URL is revoked during the sweep, and
  an entry that is not removed keeps its value.  The witness stores a frame stamped 0 and
  sweeps at 2500 ms (entry gone, URL 0 revoked) and at 1500 ms (entry still there).
\<close>

theorem sweep_removes_iff_older_than_2000ms:
  assumes "distinct (map fst (receivedVideos st))" and "(k, v) \<in> set (receivedVideos st)"
  shows "(Map_has k (receivedVideos (cleanupOldVideos now st)) \<longleftrightarrow>
            \<not> now * 1000000 - timestamp v > 2000 * 1000000)
       \<and> (now * 1000000 - timestamp v > 2000 * 1000000 \<longrightarrow>
            RevokeObjectURL (url v)
              \<in> set (drop (length (effects st)) (effects (cleanupOldVideos now st))))
       \<and> (\<not> now * 1000000 - timestamp v > 2000 * 1000000 \<longrightarrow>
            Map_get k (receivedVideos (cleanupOldVideos now st)) = Some v)"
proof -
  let ?P = "\<lambda>e. frameAgeMs_exceeds (now * 1000000) (timestamp (snd e)) 2000"
  have rv: "receivedVideos (cleanupOldVideos now st) = filter (\<lambda>e. \<not> ?P e) (receivedVideos st)"
    by (rule cleanup_receivedVideos [OF assms(1)])
  have old: "?P (k, v) \<longleftrightarrow> now * 1000000 - timestamp v > 2000 * 1000000"
    by (simp add: frameAgeMs_exceeds_def)
  have 1: "Map_has k (receivedVideos (cleanupOldVideos now st)) \<longleftrightarrow> \<not> ?P (k, v)"
    unfolding rv by (rule kept_has [OF assms])
  have 2: "?P (k, v) \<longrightarrow>
      RevokeObjectURL (url v)
        \<in> set (drop (length (effects st)) (effects (cleanupOldVideos now st)))"
    using evicted_revoked [OF assms(2), of now] by simp
  have 3: "\<not> ?P (k, v) \<longrightarrow> Map_get k (receivedVideos (cleanupOldVideos now st)) = Some v"
    unfolding rv using kept_get [OF assms, of ?P] by blast
  from 1 2 3 show ?thesis
    unfolding old by blast
qed

theorem sweep_removes_iff_older_than_2000ms_witness:
  "distinct (map fst (receivedVideos viewer_with_p1))
   \<and> (p1, \<lparr> url = 0, timestamp = 0, frameNumber = 7 \<rparr>) \<in> set (receivedVideos viewer_with_p1)
   \<and> handleIncomingVideoMessage 0 (videoFrameMessage p1 0 7 jpeg64) viewer = viewer_with_p1
   \<and> \<not> Map_has p1 (receivedVideos (cleanupOldVideos 2500 viewer_with_p1))
   \<and> RevokeObjectURL 0 \<in> set (drop (length (effects viewer_with_p1))
                                   (effects (cleanupOldVideos 2500 viewer_with_p1)))
   \<and> Map_get p1 (receivedVideos (cleanupOldVideos 1500 viewer_with_p1))
        = Some \<lparr> url = 0, timestamp = 0, frameNumber = 7 \<rparr>"
proof -
  have d: "distinct (map fst (receivedVideos viewer_with_p1))"
    by (simp add: viewer_with_p1_def)
  have m: "(p1, \<lparr> url = 0, timestamp = 0, frameNumber = 7 \<rparr>)
             \<in> set (receivedVideos viewer_with_p1)"
    by (simp add: viewer_with_p1_def)
  show ?thesis
    using sweep_removes_iff_older_than_2000ms [OF d m, of 2500]
      sweep_removes_iff_older_than_2000ms [OF d m, of 1500] d m upsert_p1
    by simp
qed

text \<open>
  Claim C6.  The sweep at 2500 ms over a cache holding the frame of \<^verbatim>\<open>"p1"\<close> stamped 0 removes
  the entry and revokes its URL; that revocation is its only effect.  No observer is called
  and the method returns nothing, so nobody learns that \<^verbatim>\<open>"p1"\<close> is gone.
\<close>

theorem sweep_notifies_nobody:
  "cleanupOldVideos 2500 viewer_with_p1
     = viewer_with_p1
         \<lparr> receivedVideos := [],
           effects := [CreateObjectURL 0, OnVideoSourceAdd p1 0, RevokeObjectURL 0] \<rparr>"
  by (simp add: cleanupOldVideos_def frameAgeMs_exceeds_def viewer_with_p1_def viewer_def
      new_TankRTC_def emit_def Map_delete_def)

section \<open>Leg lifecycle\<close>

subsection \<open>Effects only grow\<close>

lemma grows_iff: "grows st st' \<longleftrightarrow> (\<exists>xs. effects st' = effects st @ xs)"
  unfolding grows_def
  by (metis append_eq_conv_conj append_take_drop_id)

lemma grows_new: "grows st st' \<Longrightarrow> effects st' = effects st @ new_effects st st'"
  unfolding grows_def new_effects_def
  by (metis append_take_drop_id)

lemma growsI: "effects st' = effects st @ xs \<Longrightarrow> grows st st'"
  by (auto simp: grows_iff)

lemma new_effectsI: "effects st' = effects st @ xs \<Longrightarrow> new_effects st st' = xs"
  by (simp add: new_effects_def)

lemma grows_refl: "grows st st"
  by (simp add: grows_def)

lemma grows_trans: "grows a b \<Longrightarrow> grows b c \<Longrightarrow> grows a c"
  by (auto simp: grows_iff)

lemma new_effects_trans:
  assumes "grows a b" "grows b c"
  shows "new_effects a c = new_effects a b @ new_effects b c"
proof -
  have "effects c = effects a @ new_effects a b @ new_effects b c"
    using grows_new [OF assms(1)] grows_new [OF assms(2)] by simp
  then show ?thesis by (rule new_effectsI)
qed

lemma unobserved_refl: "unobserved st st"
  by (simp add: unobserved_def grows_refl new_effects_def same_legs_def)

lemma unobserved_trans:
  assumes "unobserved a b" "unobserved b c"
  shows "unobserved a c"
  using assms grows_trans [of a b c] new_effects_trans [of a b c]
  by (auto simp: unobserved_def same_legs_def)

lemma same_links_refl: "same_links st st"
  by (simp add: same_links_def)

lemma same_links_trans: "same_links a b \<Longrightarrow> same_links b c \<Longrightarrow> same_links a c"
  by (simp add: same_links_def)

lemma unobserved_emit: "\<not> is_state_change e \<Longrightarrow> unobserved st (emit e st)"
  by (simp add: unobserved_def grows_def new_effects_def same_legs_def emit_def)

lemmas obs_defs = unobserved_def grows_def new_effects_def same_legs_def emit_def

subsection \<open>The blocks of the stop methods\<close>

lemma sendStopSending_obs:
  "unobserved st (sendStopSending st) \<and> same_links st (sendStopSending st)
   \<and> receivedVideos (sendStopSending st) = receivedVideos st"
  by (simp add: sendStopSending_def obs_defs same_links_def split: option.splits)

lemma releaseLocalStream_obs:
  "unobserved st (releaseLocalStream st) \<and> same_links st (releaseLocalStream st)
   \<and> receivedVideos (releaseLocalStream st) = receivedVideos st"
  by (simp add: releaseLocalStream_def obs_defs same_links_def Let_def split: option.splits)

lemma cleanupSafariAudio_obs:
  "unobserved st (cleanupSafariAudio b st) \<and> same_links st (cleanupSafariAudio b st)
   \<and> receivedVideos (cleanupSafariAudio b st) = receivedVideos st"
  by (simp add: cleanupSafariAudio_def obs_defs same_links_def Let_def split: option.splits)

lemma releaseRemoteAudio_obs:
  "unobserved st (releaseRemoteAudio st) \<and> same_links st (releaseRemoteAudio st)
   \<and> receivedVideos (releaseRemoteAudio st) = receivedVideos st"
  by (simp add: releaseRemoteAudio_def obs_defs same_links_def split: option.splits)

lemma sendStopVideo_obs:
  "unobserved st (sendStopVideo st) \<and> same_links st (sendStopVideo st)
   \<and> receivedVideos (sendStopVideo st) = receivedVideos st"
  by (simp add: sendStopVideo_def obs_defs same_links_def split: option.splits)

lemma clearVideoInterval_obs:
  "unobserved st (clearVideoInterval st) \<and> same_links st (clearVideoInterval st)
   \<and> receivedVideos (clearVideoInterval st) = receivedVideos st"
  by (simp add: clearVideoInterval_def obs_defs same_links_def split: option.splits)

lemma releaseVideoElement_obs:
  "unobserved st (releaseVideoElement st) \<and> same_links st (releaseVideoElement st)
   \<and> receivedVideos (releaseVideoElement st) = receivedVideos st"
  by (simp add: releaseVideoElement_def obs_defs same_links_def split: option.splits)

lemma clearCleanupInterval_obs:
  "unobserved st (clearCleanupInterval st) \<and> same_links st (clearCleanupInterval st)
   \<and> receivedVideos (clearCleanupInterval st) = receivedVideos st"
  by (simp add: clearCleanupInterval_def obs_defs same_links_def split: option.splits)

lemma closeVideoConnection_obs:
  "unobserved st (closeVideoConnection st)
   \<and> receivedVideos (closeVideoConnection st) = receivedVideos st"
  by (simp add: closeVideoConnection_def obs_defs Let_def split: option.splits)

lemma closeVideoIfIdle_obs:
  "unobserved st (closeVideoIfIdle st)
   \<and> receivedVideos (closeVideoIfIdle st) = receivedVideos st"
  using closeVideoConnection_obs [of st]
  by (simp add: closeVideoIfIdle_def unobserved_refl)

lemma closeVideoIfIdle_links:
  "isSendingVideo st \<or> isViewingVideo st \<Longrightarrow> closeVideoIfIdle st = st"
  by (auto simp: closeVideoIfIdle_def)


lemma foldl_emit:
  "foldl (\<lambda>s p. emit (g p) s) st xs = st\<lparr> effects := effects st @ map g xs \<rparr>"
  by (induction xs arbitrary: st) (simp_all add: emit_def)

lemma clearReceivedVideos_eq:
  "clearReceivedVideos st =
     st\<lparr> effects := effects st @ map (\<lambda>p. OnVideoSourceRemove (fst p)) (receivedVideos st)
                        @ map (\<lambda>p. RevokeObjectURL (url (snd p))) (receivedVideos st),
         receivedVideos := [] \<rparr>"
  by (simp add: clearReceivedVideos_def foldl_emit Let_def)

lemma clearReceivedVideos_obs:
  "unobserved st (clearReceivedVideos st) \<and> same_links st (clearReceivedVideos st)
   \<and> receivedVideos (clearReceivedVideos st) = []"
  by (simp add: clearReceivedVideos_eq unobserved_def grows_def new_effects_def same_legs_def
      same_links_def filter_empty_conv)

lemma one_change:
  assumes "unobserved a b" "unobserved (emit e b) c" "is_state_change e"
  shows "filter is_state_change (new_effects a c) = [e] \<and> same_legs a c"
proof -
  have g1: "grows a b" and g2: "grows b (emit e b)" and g3: "grows (emit e b) c"
    using assms(1,2) by (simp_all add: unobserved_def grows_def emit_def)
  have n2: "new_effects b (emit e b) = [e]"
    by (simp add: new_effects_def emit_def)
  have "new_effects a c = new_effects a b @ [e] @ new_effects (emit e b) c"
    using new_effects_trans [OF g1 grows_trans [OF g2 g3]] new_effects_trans [OF g2 g3] n2
    by simp
  moreover have "same_legs a c"
    using assms(1,2) by (simp add: unobserved_def same_legs_def emit_def)
  ultimately show ?thesis
    using assms by (simp add: unobserved_def)
qed

lemma set_flag_obs:
  "\<not> isSendingAudio st \<Longrightarrow> unobserved st (st\<lparr> isSendingAudio := False \<rparr>)"
  "\<not> isListeningAudio st \<Longrightarrow> unobserved st (st\<lparr> isListeningAudio := False \<rparr>)"
  "\<not> isSendingVideo st \<Longrightarrow>
     unobserved st (st\<lparr> videoCanvas := False, videoContext := False, isSendingVideo := False \<rparr>)"
  "\<not> isViewingVideo st \<Longrightarrow> unobserved st (st\<lparr> isViewingVideo := False \<rparr>)"
  by (simp_all add: unobserved_def grows_def new_effects_def same_legs_def)

lemma stopSendingAudio_idle:
  assumes "\<not> isSendingAudio st"
  shows "same_legs st (stopSendingAudio st)
       \<and> filter is_state_change (new_effects st (stopSendingAudio st))
            = [OnAudioStateChange ''sending'' False]
       \<and> same_links st (stopSendingAudio st)
       \<and> receivedVideos (stopSendingAudio st) = receivedVideos st"
proof -
  define st1 where "st1 = sendStopSending st"
  define st2 where "st2 = releaseLocalStream st1"
  define st3 where "st3 = st2\<lparr> isSendingAudio := False \<rparr>"
  define st4 where "st4 = cleanupSafariAudio False st3"
  have r: "stopSendingAudio st = emit (OnAudioStateChange ''sending'' False) st4"
    by (simp add: stopSendingAudio_def st1_def st2_def st3_def st4_def Let_def)
  have 1: "unobserved st st1" "same_links st st1" "receivedVideos st1 = receivedVideos st"
    using sendStopSending_obs [of st] by (simp_all add: st1_def)
  have 2: "unobserved st1 st2" "same_links st1 st2" "receivedVideos st2 = receivedVideos st1"
    using releaseLocalStream_obs [of st1] by (simp_all add: st2_def)
  have "\<not> isSendingAudio st2"
    using assms 1(1) 2(1) by (simp add: unobserved_def same_legs_def)
  then have 3: "unobserved st2 st3" "same_links st2 st3" "receivedVideos st3 = receivedVideos st2"
    using set_flag_obs(1) [of st2] by (simp_all add: st3_def same_links_def)
  have 4: "unobserved st3 st4" "same_links st3 st4" "receivedVideos st4 = receivedVideos st3"
    using cleanupSafariAudio_obs [of st3 False] by (simp_all add: st4_def)
  have u: "unobserved st st4"
    using 1(1) 2(1) 3(1) 4(1) by (blast intro: unobserved_trans)
  have l: "same_links st st4"
    using 1(2) 2(2) 3(2) 4(2) by (blast intro: same_links_trans)
  show ?thesis
    unfolding r
    using one_change [OF u unobserved_refl, of "OnAudioStateChange ''sending'' False"] l
      1(3) 2(3) 3(3) 4(3)
    by (simp add: same_links_def emit_def)
qed

lemma stopListeningAudio_idle:
  assumes "\<not> isListeningAudio st"
  shows "same_legs st (stopListeningAudio st)
       \<and> filter is_state_change (new_effects st (stopListeningAudio st))
            = [OnAudioStateChange ''listening'' False]
       \<and> same_links st (stopListeningAudio st)
       \<and> receivedVideos (stopListeningAudio st) = receivedVideos st"
proof -
  define st1 where "st1 = st\<lparr> isListeningAudio := False \<rparr>"
  define st2 where "st2 = emit (OnAudioStateChange ''listening'' False) st1"
  define st3 where "st3 = releaseRemoteAudio st2"
  define st4 where "st4 = cleanupSafariAudio False st3"
  have r: "stopListeningAudio st = st4"
    by (simp add: stopListeningAudio_def st1_def st2_def st3_def st4_def Let_def)
  have 1: "unobserved st st1" "same_links st st1" "receivedVideos st1 = receivedVideos st"
    using set_flag_obs(2) [OF assms] by (simp_all add: st1_def same_links_def)
  have 2: "same_links st1 st2" "receivedVideos st2 = receivedVideos st1"
    by (simp_all add: st2_def same_links_def emit_def)
  have 3: "unobserved st2 st3" "same_links st2 st3" "receivedVideos st3 = receivedVideos st2"
    using releaseRemoteAudio_obs [of st2] by (simp_all add: st3_def)
  have 4: "unobserved st3 st4" "same_links st3 st4" "receivedVideos st4 = receivedVideos st3"
    using cleanupSafariAudio_obs [of st3 False] by (simp_all add: st4_def)
  have u: "unobserved (emit (OnAudioStateChange ''listening'' False) st1) st4"
    using 3(1) 4(1) unfolding st2_def by (blast intro: unobserved_trans)
  have l: "same_links st st4"
    using 1(2) 2(1) 3(2) 4(2) by (blast intro: same_links_trans)
  show ?thesis
    unfolding r
    using one_change [OF 1(1) u] l 1(3) 2(2) 3(3) 4(3)
    by simp
qed

lemma stopSendingVideo_idle:
  assumes "\<not> isSendingVideo st"
  shows "same_legs st (stopSendingVideo st)
       \<and> filter is_state_change (new_effects st (stopSendingVideo st))
            = [OnVideoStateChange ''sending'' False]
       \<and> receivedVideos (stopSendingVideo st) = receivedVideos st
       \<and> (isViewingVideo st \<longrightarrow> same_links st (stopSendingVideo st))"
proof -
  define st1 where "st1 = sendStopVideo st"
  define st2 where "st2 = clearVideoInterval st1"
  define st3 where "st3 = releaseVideoElement st2"
  define st4 where
    "st4 = st3\<lparr> videoCanvas := False, videoContext := False, isSendingVideo := False \<rparr>"
  define st5 where "st5 = closeVideoIfIdle st4"
  have r: "stopSendingVideo st = emit (OnVideoStateChange ''sending'' False) st5"
    by (simp add: stopSendingVideo_def st1_def st2_def st3_def st4_def st5_def Let_def)
  have 1: "unobserved st st1" "same_links st st1" "receivedVideos st1 = receivedVideos st"
    using sendStopVideo_obs [of st] by (simp_all add: st1_def)
  have 2: "unobserved st1 st2" "same_links st1 st2" "receivedVideos st2 = receivedVideos st1"
    using clearVideoInterval_obs [of st1] by (simp_all add: st2_def)
  have 3: "unobserved st2 st3" "same_links st2 st3" "receivedVideos st3 = receivedVideos st2"
    using releaseVideoElement_obs [of st2] by (simp_all add: st3_def)
  have u3: "unobserved st st3"
    using 1(1) 2(1) 3(1) by (blast intro: unobserved_trans)
  then have "\<not> isSendingVideo st3"
    using assms by (simp add: unobserved_def same_legs_def)
  then have 4: "unobserved st3 st4" "same_links st3 st4" "receivedVideos st4 = receivedVideos st3"
    using set_flag_obs(3) [of st3] by (simp_all add: st4_def same_links_def)
  have 5: "unobserved st4 st5" "receivedVideos st5 = receivedVideos st4"
    using closeVideoIfIdle_obs [of st4] by (simp_all add: st5_def)
  have u: "unobserved st st5"
    using u3 4(1) 5(1) by (blast intro: unobserved_trans)
  have l4: "same_links st st4"
    using 1(2) 2(2) 3(2) 4(2) by (blast intro: same_links_trans)
  have v: "isViewingVideo st4 = isViewingVideo st"
    using u3 4(1) by (simp add: unobserved_def same_legs_def)
  have l: "isViewingVideo st \<longrightarrow> same_links st st5"
    using l4 v closeVideoIfIdle_links [of st4] by (auto simp: st5_def)
  show ?thesis
    unfolding r
    using one_change [OF u unobserved_refl, of "OnVideoStateChange ''sending'' False"] l
      1(3) 2(3) 3(3) 4(3) 5(2)
    by (simp add: same_links_def emit_def)
qed

lemma stopViewingVideo_idle:
  assumes "\<not> isViewingVideo st"
  shows "same_legs st (stopViewingVideo st)
       \<and> filter is_state_change (new_effects st (stopViewingVideo st))
            = [OnVideoStateChange ''viewing'' False]
       \<and> receivedVideos (stopViewingVideo st) = []
       \<and> (isSendingVideo st \<longrightarrow> same_links st (stopViewingVideo st))"
proof -
  define st1 where "st1 = st\<lparr> isViewingVideo := False \<rparr>"
  define st2 where "st2 = clearCleanupInterval st1"
  define st3 where "st3 = clearReceivedVideos st2"
  define st4 where "st4 = closeVideoIfIdle st3"
  have r: "stopViewingVideo st = emit (OnVideoStateChange ''viewing'' False) st4"
    by (simp add: stopViewingVideo_def st1_def st2_def st3_def st4_def Let_def)
  have 1: "unobserved st st1" "same_links st st1"
    using set_flag_obs(4) [OF assms] by (simp_all add: st1_def same_links_def)
  have 2: "unobserved st1 st2" "same_links st1 st2"
    using clearCleanupInterval_obs [of st1] by (simp_all add: st2_def)
  have 3: "unobserved st2 st3" "same_links st2 st3" "receivedVideos st3 = []"
    using clearReceivedVideos_obs [of st2] by (simp_all add: st3_def)
  have 4: "unobserved st3 st4" "receivedVideos st4 = receivedVideos st3"
    using closeVideoIfIdle_obs [of st3] by (simp_all add: st4_def)
  have u3: "unobserved st st3"
    using 1(1) 2(1) 3(1) by (blast intro: unobserved_trans)
  have u: "unobserved st st4"
    using u3 4(1) by (blast intro: unobserved_trans)
  have l3: "same_links st st3"
    using 1(2) 2(2) 3(2) by (blast intro: same_links_trans)
  have v: "isSendingVideo st3 = isSendingVideo st"
    using u3 by (simp add: unobserved_def same_legs_def)
  have l: "isSendingVideo st \<longrightarrow> same_links st st4"
    using l3 v closeVideoIfIdle_links [of st3] by (auto simp: st4_def)
  show ?thesis
    unfolding r
    using one_change [OF u unobserved_refl, of "OnVideoStateChange ''viewing'' False"] l
      3(3) 4(2)
    by (simp add: same_links_def emit_def)
qed

subsection \<open>Reconnecting the audio link\<close>

lemma mem_new_effects_grows:
  assumes "x \<in> set (new_effects a b)" "grows a b" "grows b c"
  shows "x \<in> set (new_effects a c)"
  using assms new_effects_trans [of a b c] by simp

lemma closeAudioWs_facts:
  "grows st (closeAudioWs st)
   \<and> (\<forall>ws. audioWsConnection st = Some ws \<longrightarrow>
         WebSocketClose (ws_id ws) \<in> set (new_effects st (closeAudioWs st)))
   \<and> audioWsConnection (closeAudioWs st) = None
   \<and> audioPeerConnection (closeAudioWs st) = audioPeerConnection st
   \<and> fresh (closeAudioWs st) = fresh st"
  by (simp add: closeAudioWs_def grows_def new_effects_def emit_def split: option.splits)

lemma closeAudioPc_facts:
  "grows st (closeAudioPc st)
   \<and> (\<forall>pc. audioPeerConnection st = Some pc \<longrightarrow>
         PeerConnectionClose pc \<in> set (new_effects st (closeAudioPc st)))
   \<and> audioPeerConnection (closeAudioPc st) = None
   \<and> audioWsConnection (closeAudioPc st) = audioWsConnection st
   \<and> fresh (closeAudioPc st) = fresh st
   \<and> isSafari (closeAudioPc st) = isSafari st
   \<and> isListeningAudio (closeAudioPc st) = isListeningAudio st"
  by (simp add: closeAudioPc_def grows_def new_effects_def emit_def split: option.splits)

lemma initializeAudioConnection_facts:
  assumes "audioWsConnection st = None"
      and "initializeAudioConnection e st = (r, st')"
  shows "grows st st'
       \<and> NewWebSocket (fresh st) \<in> set (new_effects st st')
       \<and> map_option ws_id (audioWsConnection st') = Some (fresh st)
       \<and> (audioWs_opens e \<longrightarrow> r = Returned \<and> audioPeerConnection st' \<noteq> None)
       \<and> (\<not> audioWs_opens e \<longrightarrow> r \<noteq> Returned)
       \<and> fresh st \<le> fresh st'"
  using assms
  by (auto simp: initializeAudioConnection_def grows_def new_effects_def emit_def Let_def
      split: if_splits)

lemma createPeerConnection_facts:
  assumes "audioPeerConnection st = None"
  shows "grows st (createPeerConnection st)
       \<and> NewRTCPeerConnection (fresh st) \<in> set (new_effects st (createPeerConnection st))
       \<and> audioPeerConnection (createPeerConnection st) = Some (fresh st)
       \<and> audioWsConnection (createPeerConnection st) = audioWsConnection st"
  using assms
  by (simp add: createPeerConnection_def grows_def new_effects_def emit_def Let_def)

lemma resetPeerConnection_facts:
  "grows st (resetPeerConnection st)
   \<and> NewRTCPeerConnection (fresh st) \<in> set (new_effects st (resetPeerConnection st))
   \<and> audioPeerConnection (resetPeerConnection st) = Some (fresh st)
   \<and> audioWsConnection (resetPeerConnection st) = audioWsConnection st"
proof -
  let ?c = "closeAudioPc st"
  have c: "grows st ?c" "audioPeerConnection ?c = None"
    "audioWsConnection ?c = audioWsConnection st" "fresh ?c = fresh st"
    using closeAudioPc_facts [of st] by simp_all
  have p: "grows ?c (createPeerConnection ?c)"
    "NewRTCPeerConnection (fresh ?c) \<in> set (new_effects ?c (createPeerConnection ?c))"
    "audioPeerConnection (createPeerConnection ?c) = Some (fresh ?c)"
    "audioWsConnection (createPeerConnection ?c) = audioWsConnection ?c"
    using createPeerConnection_facts [OF c(2)] by simp_all
  have "NewRTCPeerConnection (fresh st) \<in> set (new_effects st (createPeerConnection ?c))"
    using new_effects_trans [OF c(1) p(1)] p(2) c(4) by simp
  then show ?thesis
    unfolding resetPeerConnection_def
    using grows_trans [OF c(1) p(1)] p(3,4) c(3,4) by simp
qed

lemma createAudioOffer_facts:
  "grows st (createAudioOffer e st)
   \<and> audioPeerConnection (createAudioOffer e st) = audioPeerConnection st
   \<and> audioWsConnection (createAudioOffer e st) = audioWsConnection st"
  by (simp add: createAudioOffer_def grows_def emit_def split: option.splits)

lemma initializeSafariAudioContext_facts:
  "grows st (initializeSafariAudioContext e st)
   \<and> audioPeerConnection (initializeSafariAudioContext e st) = audioPeerConnection st
   \<and> audioWsConnection (initializeSafariAudioContext e st) = audioWsConnection st
   \<and> fresh st \<le> fresh (initializeSafariAudioContext e st)"
  by (simp add: initializeSafariAudioContext_def handleError_def grows_def emit_def Let_def)

text \<open>The part the two audio starts share: close both, open a socket, reset the peer link.\<close>

lemma audio_reconnect:
  assumes init: "initializeAudioConnection e (closeAudioPc (closeAudioWs s)) = (r, s3)"
  shows "grows s s3
       \<and> (\<forall>ws. audioWsConnection s = Some ws \<longrightarrow>
             WebSocketClose (ws_id ws) \<in> set (new_effects s s3))
       \<and> (\<forall>pc. audioPeerConnection s = Some pc \<longrightarrow>
             PeerConnectionClose pc \<in> set (new_effects s s3))
       \<and> NewWebSocket (fresh s) \<in> set (new_effects s s3)
       \<and> map_option ws_id (audioWsConnection s3) = Some (fresh s)
       \<and> (audioWs_opens e \<longrightarrow> r = Returned)
       \<and> (\<not> audioWs_opens e \<longrightarrow> r \<noteq> Returned)
       \<and> fresh s \<le> fresh s3"
proof -
  let ?a = "closeAudioWs s"
  let ?b = "closeAudioPc ?a"
  note a = closeAudioWs_facts [of s]
  note b = closeAudioPc_facts [of ?a]
  have none: "audioWsConnection ?b = None"
    using a b by simp
  note i = initializeAudioConnection_facts [OF none init]
  have gab: "grows s ?b" using a b by (blast intro: grows_trans)
  have g: "grows s s3" using gab i by (blast intro: grows_trans)
  have ga3: "grows ?a s3" using b i by (blast intro: grows_trans)
  have ws: "\<forall>ws. audioWsConnection s = Some ws \<longrightarrow>
             WebSocketClose (ws_id ws) \<in> set (new_effects s s3)"
    using a ga3 by (blast intro: mem_new_effects_grows)
  have pc: "\<forall>pc. audioPeerConnection s = Some pc \<longrightarrow>
             PeerConnectionClose pc \<in> set (new_effects s s3)"
  proof (intro allI impI)
    fix pc assume "audioPeerConnection s = Some pc"
    then have "audioPeerConnection ?a = Some pc" using a by simp
    then have "PeerConnectionClose pc \<in> set (new_effects ?a ?b)" using b by blast
    then have "PeerConnectionClose pc \<in> set (new_effects ?a s3)"
      using b i by (blast intro: mem_new_effects_grows)
    then show "PeerConnectionClose pc \<in> set (new_effects s s3)"
      using new_effects_trans [of s ?a s3] a ga3 by simp
  qed
  have fr: "fresh ?b = fresh s" using a b by simp
  have nw: "NewWebSocket (fresh s) \<in> set (new_effects s s3)"
    using new_effects_trans [of s ?b s3] gab i fr by simp
  show ?thesis
    using g ws pc nw i fr by simp
qed

lemma audio_restart_links:
  assumes s: "grows st s" "audioWsConnection s = audioWsConnection st"
             "audioPeerConnection s = audioPeerConnection st" "fresh st \<le> fresh s"
      and init: "initializeAudioConnection e (closeAudioPc (closeAudioWs s)) = (r, s3)"
      and rest: "grows s3 st'" "audioWsConnection st' = audioWsConnection s3"
  shows "(\<forall>ws. audioWsConnection st = Some ws \<longrightarrow>
            WebSocketClose (ws_id ws) \<in> set (new_effects st st'))
       \<and> (\<forall>pc. audioPeerConnection st = Some pc \<longrightarrow>
            PeerConnectionClose pc \<in> set (new_effects st st'))
       \<and> (\<exists>w. fresh st \<le> w \<and> NewWebSocket w \<in> set (new_effects st st')
               \<and> map_option ws_id (audioWsConnection st') = Some w)"
proof -
  note rc = audio_reconnect [OF init]
  have g: "grows s st'"
    using rc rest(1) by (blast intro: grows_trans)
  have m: "\<And>x. x \<in> set (new_effects s s3) \<Longrightarrow> x \<in> set (new_effects st st')"
  proof -
    fix x assume "x \<in> set (new_effects s s3)"
    then have "x \<in> set (new_effects s st')"
      using rc rest(1) by (blast intro: mem_new_effects_grows)
    then show "x \<in> set (new_effects st st')"
      using new_effects_trans [OF s(1) g] by simp
  qed
  have "NewWebSocket (fresh s) \<in> set (new_effects st st')
        \<and> map_option ws_id (audioWsConnection st') = Some (fresh s)"
    using rc m rest(2) by simp
  then have w: "\<exists>w. fresh st \<le> w \<and> NewWebSocket w \<in> set (new_effects st st')
               \<and> map_option ws_id (audioWsConnection st') = Some w"
    using s(4) by blast
  show ?thesis
    using rc m w s(2,3) by simp
qed

lemma audio_restart_peer:
  assumes s: "grows st s" "fresh st \<le> fresh s"
      and init: "initializeAudioConnection e (closeAudioPc (closeAudioWs s)) = (r, s3)"
      and rest: "grows (resetPeerConnection s3) st'"
                "audioPeerConnection st' = audioPeerConnection (resetPeerConnection s3)"
  shows "\<exists>p. fresh st \<le> p \<and> NewRTCPeerConnection p \<in> set (new_effects st st')
             \<and> audioPeerConnection st' = Some p"
proof -
  note rc = audio_reconnect [OF init]
  note rp = resetPeerConnection_facts [of s3]
  have g: "grows s s3" "grows s3 (resetPeerConnection s3)"
    using rc rp by simp_all
  have "NewRTCPeerConnection (fresh s3) \<in> set (new_effects s3 st')"
    using rp rest(1) by (blast intro: mem_new_effects_grows)
  then have "NewRTCPeerConnection (fresh s3) \<in> set (new_effects s st')"
    using new_effects_trans [OF g(1) grows_trans [OF g(2) rest(1)]] by simp
  then have "NewRTCPeerConnection (fresh s3) \<in> set (new_effects st st')"
    using new_effects_trans [OF s(1) grows_trans [OF g(1) grows_trans [OF g(2) rest(1)]]]
    by simp
  moreover have "fresh st \<le> fresh s3"
    using rc s(2) by simp
  moreover have "audioPeerConnection st' = Some (fresh s3)"
    using rp rest(2) by simp
  ultimately show ?thesis by blast
qed

lemma startSendingAudio_reconnects:
  assumes idle: "\<not> isSendingAudio st" and mic: "getUserMedia_ok e"
  shows "(\<forall>ws. audioWsConnection st = Some ws \<longrightarrow>
            WebSocketClose (ws_id ws) \<in> set (new_effects st (snd (startSendingAudio e st))))
       \<and> (\<forall>pc. audioPeerConnection st = Some pc \<longrightarrow>
            PeerConnectionClose pc \<in> set (new_effects st (snd (startSendingAudio e st))))
       \<and> (\<exists>w. fresh st \<le> w
               \<and> NewWebSocket w \<in> set (new_effects st (snd (startSendingAudio e st)))
               \<and> map_option ws_id (audioWsConnection (snd (startSendingAudio e st))) = Some w)
       \<and> (audioWs_opens e \<longrightarrow>
            fst (startSendingAudio e st) = Returned
            \<and> (\<exists>p. fresh st \<le> p
                 \<and> NewRTCPeerConnection p \<in> set (new_effects st (snd (startSendingAudio e st)))
                 \<and> audioPeerConnection (snd (startSendingAudio e st)) = Some p))"
proof -
  define s where
    "s = st\<lparr> localStream := Some (fresh st), fresh := fresh st + 1, isSendingAudio := True \<rparr>"
  obtain r s3 where init: "initializeAudioConnection e (closeAudioPc (closeAudioWs s)) = (r, s3)"
    by fastforce
  have s: "grows st s" "audioWsConnection s = audioWsConnection st"
          "audioPeerConnection s = audioPeerConnection st" "fresh st \<le> fresh s"
    by (simp_all add: s_def grows_def)
  note rc = audio_reconnect [OF init]
  note rp = resetPeerConnection_facts [of s3]
  show ?thesis
  proof (cases "audioWs_opens e")
    case False
    then obtain err where r: "r = Threw err"
      using rc by (cases r) auto
    define st' where
      "st' = handleError ''Failed to start sending audio'' (s3\<lparr> isSendingAudio := False \<rparr>)"
    have res: "startSendingAudio e st = (Threw err, st')"
      using idle mic init [unfolded s_def] r
      by (simp add: startSendingAudio_def Let_def st'_def)
    have rest: "grows s3 st'" "audioWsConnection st' = audioWsConnection s3"
      by (simp_all add: st'_def handleError_def emit_def grows_def)
    show ?thesis
      using audio_restart_links [OF s init rest] False by (simp add: res)
  next
    case True
    then have r: "r = Returned" using rc by simp
    define st' where
      "st' = emit (OnAudioStateChange ''sending'' True)
               (createAudioOffer e (emit (AddTrack (fresh s3) (fresh st)) (resetPeerConnection s3)))"
    have res: "startSendingAudio e st = (Returned, st')"
      using idle mic init [unfolded s_def] r rp
      by (simp add: startSendingAudio_def Let_def st'_def)
    let ?t = "emit (AddTrack (fresh s3) (fresh st)) (resetPeerConnection s3)"
    note co = createAudioOffer_facts [of ?t e]
    have t: "grows (resetPeerConnection s3) ?t"
      "audioPeerConnection ?t = audioPeerConnection (resetPeerConnection s3)"
      "audioWsConnection ?t = audioWsConnection (resetPeerConnection s3)"
      by (simp_all add: emit_def grows_def)
    have e: "grows (createAudioOffer e ?t) st'"
      "audioPeerConnection st' = audioPeerConnection (createAudioOffer e ?t)"
      "audioWsConnection st' = audioWsConnection (createAudioOffer e ?t)"
      by (simp_all add: st'_def emit_def grows_def)
    have rest4: "grows (resetPeerConnection s3) st'"
      "audioPeerConnection st' = audioPeerConnection (resetPeerConnection s3)"
      "audioWsConnection st' = audioWsConnection s3"
      using t co e rp by (auto intro: grows_trans)
    have rest: "grows s3 st'"
      using rp rest4(1) by (blast intro: grows_trans)
    show ?thesis
      using audio_restart_links [OF s init rest rest4(3)]
        audio_restart_peer [OF s(1,4) init rest4(1,2)]
      by (simp add: res)
  qed
qed


lemma startListeningAudio_reconnects:
  assumes idle: "\<not> isListeningAudio st"
  shows "(\<forall>ws. audioWsConnection st = Some ws \<longrightarrow>
            WebSocketClose (ws_id ws) \<in> set (new_effects st (snd (startListeningAudio e st))))
       \<and> (\<forall>pc. audioPeerConnection st = Some pc \<longrightarrow>
            PeerConnectionClose pc \<in> set (new_effects st (snd (startListeningAudio e st))))
       \<and> (\<exists>w. fresh st \<le> w
               \<and> NewWebSocket w \<in> set (new_effects st (snd (startListeningAudio e st)))
               \<and> map_option ws_id (audioWsConnection (snd (startListeningAudio e st))) = Some w)
       \<and> (audioWs_opens e \<longrightarrow>
            (\<exists>p. fresh st \<le> p
                 \<and> NewRTCPeerConnection p \<in> set (new_effects st (snd (startListeningAudio e st)))
                 \<and> audioPeerConnection (snd (startListeningAudio e st)) = Some p))"
proof -
  define st0 where "st0 = (if isSafari st then initializeSafariAudioContext e st else st)"
  define s where "s = st0\<lparr> isListeningAudio := True \<rparr>"
  obtain r s3 where init: "initializeAudioConnection e (closeAudioPc (closeAudioWs s)) = (r, s3)"
    by fastforce
  have s0: "grows st st0" "audioWsConnection st0 = audioWsConnection st"
          "audioPeerConnection st0 = audioPeerConnection st" "fresh st \<le> fresh st0"
    using initializeSafariAudioContext_facts [of st e] by (simp_all add: st0_def grows_refl)
  have s: "grows st s" "audioWsConnection s = audioWsConnection st"
          "audioPeerConnection s = audioPeerConnection st" "fresh st \<le> fresh s"
    using s0 by (simp_all add: s_def grows_def)
  note rc = audio_reconnect [OF init]
  note rp = resetPeerConnection_facts [of s3]
  show ?thesis
  proof (cases "audioWs_opens e")
    case False
    then obtain err where r: "r = Threw err"
      using rc by (cases r) auto
    define st' where
      "st' = handleError ''Failed to start listening audio'' (s3\<lparr> isListeningAudio := False \<rparr>)"
    have res: "startListeningAudio e st = (Returned, st')"
      using idle init [unfolded s_def st0_def] r
      by (simp add: startListeningAudio_def Let_def st'_def)
    have rest: "grows s3 st'" "audioWsConnection st' = audioWsConnection s3"
      by (simp_all add: st'_def handleError_def emit_def grows_def)
    show ?thesis
      using audio_restart_links [OF s init rest] False by (simp add: res)
  next
    case True
    then have r: "r = Returned" using rc by simp
    define s5 where
      "s5 = (case localStream (resetPeerConnection s3) of
               None \<Rightarrow> resetPeerConnection s3
             | Some m \<Rightarrow>
                 if isSendingAudio (resetPeerConnection s3)
                 then emit (AddTrack (fresh s3) m) (resetPeerConnection s3)
                 else resetPeerConnection s3)"
    define st' where
      "st' = emit (OnAudioStateChange ''listening'' True) (createAudioOffer e s5)"
    have res: "startListeningAudio e st = (Returned, st')"
      using idle init [unfolded s_def st0_def] r rp
      by (simp add: startListeningAudio_def Let_def st'_def s5_def)
    note co = createAudioOffer_facts [of s5 e]
    have t: "grows (resetPeerConnection s3) s5"
      "audioPeerConnection s5 = audioPeerConnection (resetPeerConnection s3)"
      "audioWsConnection s5 = audioWsConnection (resetPeerConnection s3)"
      by (simp_all add: s5_def emit_def grows_def split: option.splits)
    have e: "grows (createAudioOffer e s5) st'"
      "audioPeerConnection st' = audioPeerConnection (createAudioOffer e s5)"
      "audioWsConnection st' = audioWsConnection (createAudioOffer e s5)"
      by (simp_all add: st'_def emit_def grows_def)
    have rest4: "grows (resetPeerConnection s3) st'"
      "audioPeerConnection st' = audioPeerConnection (resetPeerConnection s3)"
      "audioWsConnection st' = audioWsConnection s3"
      using t co e rp by (auto intro: grows_trans)
    have rest: "grows s3 st'"
      using rp rest4(1) by (blast intro: grows_trans)
    show ?thesis
      using audio_restart_links [OF s init rest rest4(3)]
        audio_restart_peer [OF s(1,4) init rest4(1,2)]
      by (simp add: res)
  qed
qed

subsection \<open>Starting a video leg over an open link\<close>

lemma awaitVideoConnection_ready:
  "isVideoConnectionReady st \<Longrightarrow> awaitVideoConnection e st = (Returned, st)"
  by (simp add: awaitVideoConnection_def initializeVideoConnection_def Let_def)

lemma startViewingVideo_reuses:
  assumes "\<not> isViewingVideo st" "isVideoConnectionReady st"
  shows "fst (startViewingVideo e st) = Returned
       \<and> same_links st (snd (startViewingVideo e st))
       \<and> new_effects st (snd (startViewingVideo e st))
            = [SetInterval (fresh st), OnVideoStateChange ''viewing'' True]"
proof -
  have "isVideoConnectionReady (st\<lparr> isViewingVideo := True \<rparr>)"
    using assms(2) by (simp add: isVideoConnectionReady_def)
  then show ?thesis
    using assms(1)
    by (simp add: startViewingVideo_def awaitVideoConnection_ready Let_def emit_def
        new_effects_def same_links_def)
qed

lemma startSendingVideo_reuses:
  assumes "\<not> isSendingVideo st" "getUserMedia_ok e" "isVideoConnectionReady st"
  shows "fst (startSendingVideo e st) = Returned
       \<and> same_links st (snd (startSendingVideo e st))
       \<and> new_effects st (snd (startSendingVideo e st))
            = [SetInterval (fresh st + 1), OnVideoStateChange ''sending'' True]"
proof -
  have "isVideoConnectionReady
          (st\<lparr> fresh := fresh st + 1, videoCanvas := True, videoContext := True,
                videoElement := Some (fresh st), isSendingVideo := True \<rparr>)"
    using assms(3) by (simp add: isVideoConnectionReady_def)
  then show ?thesis
    using assms(1,2)
    by (simp add: startSendingVideo_def awaitVideoConnection_ready Let_def emit_def
        new_effects_def same_links_def)
qed

subsection \<open>A data channel that never opens\<close>

lemma waitForDataChannel_never:
  assumes "dataChannel_opens_after e = None" "\<not> dataChannelOpen st" "attempts < 50"
  shows "waitForDataChannel e attempts st =
           (Threw ''Video data channel failed to open within 5 seconds'', st)"
  using assms
proof (induction e attempts st rule: waitForDataChannel.induct)
  case (1 e attempts st)
  have s: "sleep100 e (attempts + 1) st = st"
    using "1.prems"(1) by (simp add: sleep100_def)
  show ?case
  proof (cases "attempts + 1 \<ge> 50")
    case True
    then show ?thesis
      using "1.prems"(2) s by (subst waitForDataChannel.simps) (simp add: Let_def)
  next
    case False
    then have "waitForDataChannel e (attempts + 1) st =
           (Threw ''Video data channel failed to open within 5 seconds'', st)"
      using "1.IH" [OF "1.prems"(2) refl refl False] "1.prems" s by simp
    then show ?thesis
      using "1.prems"(2) s False by (subst waitForDataChannel.simps) (simp add: Let_def)
  qed
qed


subsection \<open>What the stop methods do, in full\<close>

text \<open>
  Each block of a stop method as one record update, and from these the effects that each stop
  method appends and the fields it clears, whatever the leg flags are.
\<close>

lemma getSenders_snoc: "getSenders pc (es @ [e]) = senders_after pc (getSenders pc es) e"
  by (simp add: getSenders_def)

lemma sendStopSending_eq:
  "sendStopSending st =
     st\<lparr> effects := effects st @
           (case audioWsConnection st of
              None \<Rightarrow> []
            | Some ws \<Rightarrow>
                if ws_readyState ws = OPEN \<and> clientId st \<noteq> []
                then [WebSocketSend (ws_id ws) ''stop-sending''] else []) \<rparr>"
  by (simp add: sendStopSending_def emit_def split: option.splits)

lemma sendStopSending_senders:
  "getSenders pc (effects (sendStopSending st)) = getSenders pc (effects st)"
  by (simp add: sendStopSending_def emit_def getSenders_snoc split: option.splits)

lemma releaseLocalStream_eq:
  "releaseLocalStream st =
     st\<lparr> effects := effects st @
           (case localStream st of
              None \<Rightarrow> []
            | Some m \<Rightarrow>
                TrackStop m #
                (case audioPeerConnection st of
                   None \<Rightarrow> []
                 | Some pc \<Rightarrow>
                     if m \<in> set (getSenders pc (effects st)) then [RemoveTrack pc m] else [])),
         localStream := None \<rparr>"
  by (simp add: releaseLocalStream_def emit_def Let_def getSenders_snoc split: option.splits)

lemma cleanupSafariAudio_effects:
  "effects (cleanupSafariAudio b st) =
     effects st @
       (case safariAudioContext st of
          None \<Rightarrow> []
        | Some c \<Rightarrow>
            if isSafari st \<and> (b \<or> (\<not> isSendingAudio st \<and> \<not> isListeningAudio st))
            then [AudioContextClose c] else [])"
  by (auto simp: cleanupSafariAudio_def emit_def Let_def split: option.splits)

lemma cleanupSafariAudio_fields:
  "localStream (cleanupSafariAudio b st) = localStream st"
  "remoteAudioElement (cleanupSafariAudio b st) = remoteAudioElement st"
  by (simp_all add: cleanupSafariAudio_def emit_def Let_def split: option.splits)

lemma releaseRemoteAudio_eq:
  "releaseRemoteAudio st =
     st\<lparr> effects := effects st @
           (case remoteAudioElement st of None \<Rightarrow> [] | Some a \<Rightarrow> [AudioElementPause a]),
         remoteAudioElement := None \<rparr>"
  by (simp add: releaseRemoteAudio_def emit_def split: option.splits)

lemma sendStopVideo_eq:
  "sendStopVideo st =
     st\<lparr> effects := effects st @
           (case videoDataChannel st of
              None \<Rightarrow> []
            | Some dc \<Rightarrow>
                if dc_readyState dc = OPEN
                then [DataChannelSendText (dc_id dc) ''stop-video''] else []) \<rparr>"
  by (simp add: sendStopVideo_def emit_def split: option.splits)

lemma clearVideoInterval_eq:
  "clearVideoInterval st =
     st\<lparr> effects := effects st @
           (case videoInterval st of None \<Rightarrow> [] | Some t \<Rightarrow> [ClearInterval t]),
         videoInterval := None \<rparr>"
  by (simp add: clearVideoInterval_def emit_def split: option.splits)

lemma releaseVideoElement_eq:
  "releaseVideoElement st =
     st\<lparr> effects := effects st @
           (case videoElement st of None \<Rightarrow> [] | Some m \<Rightarrow> [TrackStop m]),
         videoElement := None \<rparr>"
  by (simp add: releaseVideoElement_def emit_def split: option.splits)

lemma clearCleanupInterval_eq:
  "clearCleanupInterval st =
     st\<lparr> effects := effects st @
           (case videoCleanupInterval st of None \<Rightarrow> [] | Some t \<Rightarrow> [ClearInterval t]),
         videoCleanupInterval := None \<rparr>"
  by (simp add: clearCleanupInterval_def emit_def split: option.splits)

lemma closeVideoConnection_eq:
  "closeVideoConnection st =
     st\<lparr> effects := effects st @
           (case videoPeerConnection st of None \<Rightarrow> [] | Some pc \<Rightarrow> [PeerConnectionClose pc]) @
           (case videoWsConnection st of None \<Rightarrow> [] | Some ws \<Rightarrow> [WebSocketClose (ws_id ws)]),
         videoPeerConnection := None, videoWsConnection := None, videoDataChannel := None \<rparr>"
  by (simp add: closeVideoConnection_def emit_def Let_def split: option.splits)

lemma stopSendingAudio_teardown:
  "new_effects st (stopSendingAudio st) =
     (case audioWsConnection st of
        None \<Rightarrow> []
      | Some ws \<Rightarrow>
          if ws_readyState ws = OPEN \<and> clientId st \<noteq> []
          then [WebSocketSend (ws_id ws) ''stop-sending''] else [])
     @ (case localStream st of
          None \<Rightarrow> []
        | Some m \<Rightarrow>
            TrackStop m #
            (case audioPeerConnection st of
               None \<Rightarrow> []
             | Some pc \<Rightarrow>
                 if m \<in> set (getSenders pc (effects st)) then [RemoveTrack pc m] else []))
     @ (case safariAudioContext st of
          None \<Rightarrow> []
        | Some c \<Rightarrow> if isSafari st \<and> \<not> isListeningAudio st then [AudioContextClose c] else [])
     @ [OnAudioStateChange ''sending'' False]"
  "localStream (stopSendingAudio st) = None"
proof -
  define st1 where "st1 = sendStopSending st"
  define st2 where "st2 = releaseLocalStream st1"
  define st3 where "st3 = st2\<lparr> isSendingAudio := False \<rparr>"
  define st4 where "st4 = cleanupSafariAudio False st3"
  have r: "stopSendingAudio st = emit (OnAudioStateChange ''sending'' False) st4"
    by (simp add: stopSendingAudio_def st1_def st2_def st3_def st4_def Let_def)
  have s: "getSenders pc (effects st1) = getSenders pc (effects st)" for pc
    unfolding st1_def by (rule sendStopSending_senders)
  have 1: "st1 = st\<lparr> effects := effects st @
           (case audioWsConnection st of
              None \<Rightarrow> []
            | Some ws \<Rightarrow>
                if ws_readyState ws = OPEN \<and> clientId st \<noteq> []
                then [WebSocketSend (ws_id ws) ''stop-sending''] else []) \<rparr>"
    unfolding st1_def by (rule sendStopSending_eq)
  have 2: "effects st2 = effects st1 @
           (case localStream st of
              None \<Rightarrow> []
            | Some m \<Rightarrow>
                TrackStop m #
                (case audioPeerConnection st of
                   None \<Rightarrow> []
                 | Some pc \<Rightarrow>
                     if m \<in> set (getSenders pc (effects st)) then [RemoveTrack pc m] else []))"
    unfolding st2_def releaseLocalStream_eq [of st1] s by (simp add: 1 split: option.splits)
  have f2: "safariAudioContext st2 = safariAudioContext st" "isSafari st2 = isSafari st"
    "isListeningAudio st2 = isListeningAudio st" "localStream st2 = None"
    unfolding st2_def releaseLocalStream_eq [of st1] by (simp_all add: 1)
  have 4: "effects st4 = effects st2 @
       (case safariAudioContext st of
          None \<Rightarrow> []
        | Some c \<Rightarrow> if isSafari st \<and> \<not> isListeningAudio st then [AudioContextClose c] else [])"
    unfolding st4_def cleanupSafariAudio_effects by (simp add: st3_def f2 split: option.splits)
  show "new_effects st (stopSendingAudio st) =
     (case audioWsConnection st of
        None \<Rightarrow> []
      | Some ws \<Rightarrow>
          if ws_readyState ws = OPEN \<and> clientId st \<noteq> []
          then [WebSocketSend (ws_id ws) ''stop-sending''] else [])
     @ (case localStream st of
          None \<Rightarrow> []
        | Some m \<Rightarrow>
            TrackStop m #
            (case audioPeerConnection st of
               None \<Rightarrow> []
             | Some pc \<Rightarrow>
                 if m \<in> set (getSenders pc (effects st)) then [RemoveTrack pc m] else []))
     @ (case safariAudioContext st of
          None \<Rightarrow> []
        | Some c \<Rightarrow> if isSafari st \<and> \<not> isListeningAudio st then [AudioContextClose c] else [])
     @ [OnAudioStateChange ''sending'' False]"
    unfolding r by (rule new_effectsI) (simp add: emit_def 4 2, simp add: 1)
  show "localStream (stopSendingAudio st) = None"
    unfolding r by (simp add: emit_def st4_def cleanupSafariAudio_fields st3_def f2)
qed


lemma stopListeningAudio_teardown:
  "new_effects st (stopListeningAudio st) =
     [OnAudioStateChange ''listening'' False]
     @ (case remoteAudioElement st of None \<Rightarrow> [] | Some a \<Rightarrow> [AudioElementPause a])
     @ (case safariAudioContext st of
          None \<Rightarrow> []
        | Some c \<Rightarrow> if isSafari st \<and> \<not> isSendingAudio st then [AudioContextClose c] else [])"
  "remoteAudioElement (stopListeningAudio st) = None"
proof -
  define st2 where
    "st2 = emit (OnAudioStateChange ''listening'' False) (st\<lparr> isListeningAudio := False \<rparr>)"
  define st3 where "st3 = releaseRemoteAudio st2"
  have r: "stopListeningAudio st = cleanupSafariAudio False st3"
    by (simp add: stopListeningAudio_def st2_def st3_def Let_def)
  have 3: "effects st3 = effects st @ [OnAudioStateChange ''listening'' False]
       @ (case remoteAudioElement st of None \<Rightarrow> [] | Some a \<Rightarrow> [AudioElementPause a])"
    unfolding st3_def releaseRemoteAudio_eq [of st2] by (simp add: st2_def emit_def)
  have f3: "safariAudioContext st3 = safariAudioContext st" "isSafari st3 = isSafari st"
    "isSendingAudio st3 = isSendingAudio st" "\<not> isListeningAudio st3"
    "remoteAudioElement st3 = None"
    unfolding st3_def releaseRemoteAudio_eq [of st2] by (simp_all add: st2_def emit_def)
  show "new_effects st (stopListeningAudio st) =
     [OnAudioStateChange ''listening'' False]
     @ (case remoteAudioElement st of None \<Rightarrow> [] | Some a \<Rightarrow> [AudioElementPause a])
     @ (case safariAudioContext st of
          None \<Rightarrow> []
        | Some c \<Rightarrow> if isSafari st \<and> \<not> isSendingAudio st then [AudioContextClose c] else [])"
    unfolding r
    by (rule new_effectsI) (simp add: cleanupSafariAudio_effects 3 f3 split: option.splits)
  show "remoteAudioElement (stopListeningAudio st) = None"
    unfolding r by (simp add: cleanupSafariAudio_fields f3)
qed

lemma stopSendingVideo_teardown:
  "new_effects st (stopSendingVideo st) =
     (case videoDataChannel st of
        None \<Rightarrow> []
      | Some dc \<Rightarrow>
          if dc_readyState dc = OPEN then [DataChannelSendText (dc_id dc) ''stop-video''] else [])
     @ (case videoInterval st of None \<Rightarrow> [] | Some t \<Rightarrow> [ClearInterval t])
     @ (case videoElement st of None \<Rightarrow> [] | Some m \<Rightarrow> [TrackStop m])
     @ (if isViewingVideo st then []
        else (case videoPeerConnection st of None \<Rightarrow> [] | Some pc \<Rightarrow> [PeerConnectionClose pc])
           @ (case videoWsConnection st of None \<Rightarrow> [] | Some ws \<Rightarrow> [WebSocketClose (ws_id ws)]))
     @ [OnVideoStateChange ''sending'' False]"
  "videoInterval (stopSendingVideo st) = None"
  "videoElement (stopSendingVideo st) = None"
  "\<not> videoCanvas (stopSendingVideo st)"
  "\<not> videoContext (stopSendingVideo st)"
  "\<not> isViewingVideo st \<Longrightarrow>
     videoPeerConnection (stopSendingVideo st) = None
     \<and> videoWsConnection (stopSendingVideo st) = None
     \<and> videoDataChannel (stopSendingVideo st) = None"
  by (simp_all add: stopSendingVideo_def Let_def sendStopVideo_eq clearVideoInterval_eq
      releaseVideoElement_eq closeVideoIfIdle_def closeVideoConnection_eq emit_def
      new_effects_def)

lemma stopViewingVideo_teardown:
  "new_effects st (stopViewingVideo st) =
     (case videoCleanupInterval st of None \<Rightarrow> [] | Some t \<Rightarrow> [ClearInterval t])
     @ map (\<lambda>p. OnVideoSourceRemove (fst p)) (receivedVideos st)
     @ map (\<lambda>p. RevokeObjectURL (url (snd p))) (receivedVideos st)
     @ (if isSendingVideo st then []
        else (case videoPeerConnection st of None \<Rightarrow> [] | Some pc \<Rightarrow> [PeerConnectionClose pc])
           @ (case videoWsConnection st of None \<Rightarrow> [] | Some ws \<Rightarrow> [WebSocketClose (ws_id ws)]))
     @ [OnVideoStateChange ''viewing'' False]"
  "videoCleanupInterval (stopViewingVideo st) = None"
  "receivedVideos (stopViewingVideo st) = []"
  "\<not> isSendingVideo st \<Longrightarrow>
     videoPeerConnection (stopViewingVideo st) = None
     \<and> videoWsConnection (stopViewingVideo st) = None
     \<and> videoDataChannel (stopViewingVideo st) = None"
  by (simp_all add: stopViewingVideo_def Let_def clearCleanupInterval_eq clearReceivedVideos_eq
      closeVideoIfIdle_def closeVideoConnection_eq emit_def new_effects_def)

subsection \<open>Example runs\<close>

lemmas env_simps = never_opens_def opens_soon_def socket_fails_def

lemmas video_start_simps = startViewingVideo_def startSendingVideo_def awaitVideoConnection_def
  initializeVideoConnection_def isVideoConnectionReady_def dataChannelOpen_def sleep100_def
  handleError_def emit_def Let_def

lemmas audio_start_simps = startSendingAudio_def startListeningAudio_def closeAudioWs_def
  closeAudioPc_def initializeAudioConnection_def resetPeerConnection_def
  createPeerConnection_def createAudioOffer_def initializeSafariAudioContext_def
  handleError_def emit_def Let_def

lemma wait3:
  "dataChannel_opens_after e = Some 3 \<Longrightarrow> \<not> dataChannelOpen st \<Longrightarrow>
   waitForDataChannel e 0 st = (Returned, sleep100 e 3 st)"
  by (simp add: waitForDataChannel.simps sleep100_def dataChannelOpen_def Let_def
      split: option.splits)

lemma viewing_eq:
  "startViewingVideo opens_soon viewer =
     (Returned,
      viewer\<lparr> isViewingVideo := True,
              videoWsConnection := Some \<lparr> ws_id = 0, ws_readyState = OPEN \<rparr>,
              videoPeerConnection := Some 1,
              videoDataChannel := Some \<lparr> dc_id = 2, dc_readyState = OPEN \<rparr>,
              videoCleanupInterval := Some 3, fresh := 4,
              effects := [NewWebSocket 0, NewRTCPeerConnection 1, WebSocketSend 0 ''offer'',
                          SetInterval 3, OnVideoStateChange ''viewing'' True] \<rparr>)"
  by (simp add: video_start_simps wait3 viewer_def new_TankRTC_def env_simps)


lemma viewing_state:
  "viewing =
      viewer\<lparr> isViewingVideo := True,
              videoWsConnection := Some \<lparr> ws_id = 0, ws_readyState = OPEN \<rparr>,
              videoPeerConnection := Some 1,
              videoDataChannel := Some \<lparr> dc_id = 2, dc_readyState = OPEN \<rparr>,
              videoCleanupInterval := Some 3, fresh := 4,
              effects := [NewWebSocket 0, NewRTCPeerConnection 1, WebSocketSend 0 ''offer'',
                          SetInterval 3, OnVideoStateChange ''viewing'' True] \<rparr>"
  by (simp add: viewing_def viewing_eq)

lemma sending_state:
  "sending =
      viewer\<lparr> isSendingVideo := True, videoCanvas := True, videoContext := True,
              videoElement := Some 0,
              videoWsConnection := Some \<lparr> ws_id = 1, ws_readyState = OPEN \<rparr>,
              videoPeerConnection := Some 2,
              videoDataChannel := Some \<lparr> dc_id = 3, dc_readyState = OPEN \<rparr>,
              videoInterval := Some 4, fresh := 5,
              effects := [NewWebSocket 1, NewRTCPeerConnection 2, WebSocketSend 1 ''offer'',
                          SetInterval 4, OnVideoStateChange ''sending'' True] \<rparr>"
  by (simp add: sending_def video_start_simps wait3 viewer_def new_TankRTC_def env_simps)

lemma listening_state:
  "listening =
      viewer\<lparr> isListeningAudio := True,
              audioWsConnection := Some \<lparr> ws_id = 0, ws_readyState = OPEN \<rparr>,
              audioPeerConnection := Some 2, fresh := 3,
              effects := [NewWebSocket 0, NewRTCPeerConnection 1, PeerConnectionClose 1,
                          NewRTCPeerConnection 2, WebSocketSend 0 ''offer'',
                          OnAudioStateChange ''listening'' True] \<rparr>"
  by (simp add: listening_def audio_start_simps viewer_def new_TankRTC_def env_simps)

lemma sendAudio_while_listening:
  "startSendingAudio opens_soon listening =
     (Returned,
      listening\<lparr> isSendingAudio := True, localStream := Some 3,
                 audioWsConnection := Some \<lparr> ws_id = 4, ws_readyState = OPEN \<rparr>,
                 audioPeerConnection := Some 6, fresh := 7,
                 effects := effects listening @
                   [WebSocketClose 0, PeerConnectionClose 2, NewWebSocket 4,
                    NewRTCPeerConnection 5, PeerConnectionClose 5, NewRTCPeerConnection 6,
                    AddTrack 6 3, WebSocketSend 4 ''offer'',
                    OnAudioStateChange ''sending'' True] \<rparr>)"
  by (simp add: listening_state audio_start_simps viewer_def new_TankRTC_def env_simps)

lemma sendVideo_while_viewing:
  "startSendingVideo opens_soon viewing =
     (Returned,
      viewing\<lparr> isSendingVideo := True, videoCanvas := True, videoContext := True,
               videoElement := Some 4, videoInterval := Some 5, fresh := 6,
               effects := effects viewing @
                 [SetInterval 5, OnVideoStateChange ''sending'' True] \<rparr>)"
  by (simp add: viewing_state video_start_simps viewer_def new_TankRTC_def env_simps)

text \<open>
  Claim C2.  A controller is constructed and \<^verbatim>\<open>startViewingVideo\<close> is called while the data
  channel never opens: after 50 polls the start fails.  The promise is fulfilled, not
  rejected; one error is reported; and \<^verbatim>\<open>isViewingVideo\<close> is still true, so that a later
  \<^verbatim>\<open>startViewingVideo\<close> returns at once without doing anything.  \<^verbatim>\<open>startSendingVideo\<close> fails in
  the same way, and \<^verbatim>\<open>startListeningAudio\<close> does not re-throw either.  Only
  \<^verbatim>\<open>startSendingAudio\<close> does all three things: when its socket errors, the flag is back to
  false, one error is reported and the promise is rejected.
\<close>

theorem failed_video_start_stays_started:
  "startViewingVideo never_opens viewer =
     (Returned,
      viewer\<lparr> isViewingVideo := True,
              videoWsConnection := Some \<lparr> ws_id = 0, ws_readyState = CONNECTING \<rparr>,
              videoPeerConnection := Some 1, fresh := 2,
              effects := [NewWebSocket 0, NewRTCPeerConnection 1,
                          OnError ''Failed to start viewing video''] \<rparr>)
   \<and> isViewingVideo (snd (startViewingVideo never_opens viewer))
   \<and> startViewingVideo opens_soon (snd (startViewingVideo never_opens viewer))
        = (Returned, snd (startViewingVideo never_opens viewer))
   \<and> fst (startSendingVideo never_opens viewer) = Returned
   \<and> isSendingVideo (snd (startSendingVideo never_opens viewer))
   \<and> fst (startListeningAudio socket_fails viewer) = Returned
   \<and> fst (startSendingAudio socket_fails viewer) = Threw ''WebSocket error''
   \<and> \<not> isSendingAudio (snd (startSendingAudio socket_fails viewer))
   \<and> filter is_error (effects (snd (startSendingAudio socket_fails viewer)))
        = [OnError ''Failed to start sending audio'']"
proof -
  note w = waitForDataChannel_never
  have v: "startViewingVideo never_opens viewer =
     (Returned,
      viewer\<lparr> isViewingVideo := True,
              videoWsConnection := Some \<lparr> ws_id = 0, ws_readyState = CONNECTING \<rparr>,
              videoPeerConnection := Some 1, fresh := 2,
              effects := [NewWebSocket 0, NewRTCPeerConnection 1,
                          OnError ''Failed to start viewing video''] \<rparr>)"
    by (simp add: startViewingVideo_def awaitVideoConnection_def initializeVideoConnection_def
        isVideoConnectionReady_def dataChannelOpen_def handleError_def emit_def Let_def w
        viewer_def new_TankRTC_def never_opens_def)
  have s: "startSendingVideo never_opens viewer =
     (Returned,
      viewer\<lparr> isSendingVideo := True, videoCanvas := True, videoContext := True,
              videoElement := Some 0,
              videoWsConnection := Some \<lparr> ws_id = 1, ws_readyState = CONNECTING \<rparr>,
              videoPeerConnection := Some 2, fresh := 3,
              effects := [NewWebSocket 1, NewRTCPeerConnection 2,
                          OnError ''Failed to start sending video''] \<rparr>)"
    by (simp add: startSendingVideo_def awaitVideoConnection_def initializeVideoConnection_def
        isVideoConnectionReady_def dataChannelOpen_def handleError_def emit_def Let_def w
        viewer_def new_TankRTC_def never_opens_def)
  have a: "startSendingAudio socket_fails viewer =
     (Threw ''WebSocket error'',
      viewer\<lparr> localStream := Some 0,
              audioWsConnection := Some \<lparr> ws_id = 1, ws_readyState = CLOSED \<rparr>, fresh := 2,
              effects := [NewWebSocket 1, OnError ''Failed to start sending audio''] \<rparr>)"
    by (simp add: audio_start_simps viewer_def new_TankRTC_def env_simps)
  have l: "fst (startListeningAudio socket_fails viewer) = Returned"
    by (simp add: audio_start_simps viewer_def new_TankRTC_def env_simps)
  show ?thesis
    unfolding v s a using l
    by (simp add: startViewingVideo_def viewer_def new_TankRTC_def)
qed

text \<open>
  Claim C3, as amended.  Starting an audio leg that is idle (for send-audio: once the
  microphone is granted) closes the audio socket and the audio peer link that the controller
  holds, if any and whatever their state, and installs a socket created during the call; when
  that socket opens, the peer link afterwards is one created during the call as well.
  Starting a video leg that is idle (for send-video: once the camera is granted) while socket,
  peer link and data channel of the video family are there and open reuses them: the
  connection fields are unchanged and the call does nothing but start its timer and notify
  the state change.  The witness starts send-audio while listen-audio holds an open link
  (socket 0 and peer link 2 are closed, socket 4 and peer link 6 installed), starts
  listen-audio on a fresh controller, and starts each video leg while its sibling holds an
  open link.  The counterexample is the last of these: the sibling's socket 0 and peer link 1
  are still in place and nothing was closed or created.
\<close>

theorem start_reconnects_audio_reuses_video:
  "(\<not> isSendingAudio st \<and> getUserMedia_ok e \<longrightarrow>
      (\<forall>ws. audioWsConnection st = Some ws \<longrightarrow>
            WebSocketClose (ws_id ws) \<in> set (new_effects st (snd (startSendingAudio e st))))
       \<and> (\<forall>pc. audioPeerConnection st = Some pc \<longrightarrow>
            PeerConnectionClose pc \<in> set (new_effects st (snd (startSendingAudio e st))))
       \<and> (\<exists>w. fresh st \<le> w
               \<and> NewWebSocket w \<in> set (new_effects st (snd (startSendingAudio e st)))
               \<and> map_option ws_id (audioWsConnection (snd (startSendingAudio e st))) = Some w)
       \<and> (audioWs_opens e \<longrightarrow>
            (\<exists>p. fresh st \<le> p
                 \<and> NewRTCPeerConnection p \<in> set (new_effects st (snd (startSendingAudio e st)))
                 \<and> audioPeerConnection (snd (startSendingAudio e st)) = Some p)))
   \<and> (\<not> isListeningAudio st \<longrightarrow>
      (\<forall>ws. audioWsConnection st = Some ws \<longrightarrow>
            WebSocketClose (ws_id ws) \<in> set (new_effects st (snd (startListeningAudio e st))))
       \<and> (\<forall>pc. audioPeerConnection st = Some pc \<longrightarrow>
            PeerConnectionClose pc \<in> set (new_effects st (snd (startListeningAudio e st))))
       \<and> (\<exists>w. fresh st \<le> w
               \<and> NewWebSocket w \<in> set (new_effects st (snd (startListeningAudio e st)))
               \<and> map_option ws_id (audioWsConnection (snd (startListeningAudio e st))) = Some w)
       \<and> (audioWs_opens e \<longrightarrow>
            (\<exists>p. fresh st \<le> p
                 \<and> NewRTCPeerConnection p \<in> set (new_effects st (snd (startListeningAudio e st)))
                 \<and> audioPeerConnection (snd (startListeningAudio e st)) = Some p)))
   \<and> (\<not> isSendingVideo st \<and> getUserMedia_ok e \<and> isVideoConnectionReady st \<longrightarrow>
        fst (startSendingVideo e st) = Returned
        \<and> same_links st (snd (startSendingVideo e st))
        \<and> new_effects st (snd (startSendingVideo e st))
             = [SetInterval (fresh st + 1), OnVideoStateChange ''sending'' True])
   \<and> (\<not> isViewingVideo st \<and> isVideoConnectionReady st \<longrightarrow>
        fst (startViewingVideo e st) = Returned
        \<and> same_links st (snd (startViewingVideo e st))
        \<and> new_effects st (snd (startViewingVideo e st))
             = [SetInterval (fresh st), OnVideoStateChange ''viewing'' True])"
proof (intro conjI impI)
  assume "\<not> isSendingAudio st \<and> getUserMedia_ok e"
  then have *: "\<not> isSendingAudio st" "getUserMedia_ok e" by simp_all
  note a = startSendingAudio_reconnects [OF *]
  show "\<forall>ws. audioWsConnection st = Some ws \<longrightarrow>
            WebSocketClose (ws_id ws) \<in> set (new_effects st (snd (startSendingAudio e st)))"
    using a by blast
  show "\<forall>pc. audioPeerConnection st = Some pc \<longrightarrow>
            PeerConnectionClose pc \<in> set (new_effects st (snd (startSendingAudio e st)))"
    using a by blast
  show "\<exists>w. fresh st \<le> w
               \<and> NewWebSocket w \<in> set (new_effects st (snd (startSendingAudio e st)))
               \<and> map_option ws_id (audioWsConnection (snd (startSendingAudio e st))) = Some w"
    using a by blast
  assume "audioWs_opens e"
  then show "\<exists>p. fresh st \<le> p
                 \<and> NewRTCPeerConnection p \<in> set (new_effects st (snd (startSendingAudio e st)))
                 \<and> audioPeerConnection (snd (startSendingAudio e st)) = Some p"
    using a by blast
next
  assume *: "\<not> isListeningAudio st"
  note a = startListeningAudio_reconnects [OF *, of e]
  show "\<forall>ws. audioWsConnection st = Some ws \<longrightarrow>
            WebSocketClose (ws_id ws) \<in> set (new_effects st (snd (startListeningAudio e st)))"
    using a by blast
  show "\<forall>pc. audioPeerConnection st = Some pc \<longrightarrow>
            PeerConnectionClose pc \<in> set (new_effects st (snd (startListeningAudio e st)))"
    using a by blast
  show "\<exists>w. fresh st \<le> w
               \<and> NewWebSocket w \<in> set (new_effects st (snd (startListeningAudio e st)))
               \<and> map_option ws_id (audioWsConnection (snd (startListeningAudio e st))) = Some w"
    using a by blast
  assume "audioWs_opens e"
  then show "\<exists>p. fresh st \<le> p
                 \<and> NewRTCPeerConnection p \<in> set (new_effects st (snd (startListeningAudio e st)))
                 \<and> audioPeerConnection (snd (startListeningAudio e st)) = Some p"
    using a by blast
next
  assume "\<not> isSendingVideo st \<and> getUserMedia_ok e \<and> isVideoConnectionReady st"
  then have *: "\<not> isSendingVideo st" "getUserMedia_ok e" "isVideoConnectionReady st"
    by simp_all
  note a = startSendingVideo_reuses [OF *]
  show "fst (startSendingVideo e st) = Returned" using a by blast
  show "same_links st (snd (startSendingVideo e st))" using a by blast
  show "new_effects st (snd (startSendingVideo e st))
             = [SetInterval (fresh st + 1), OnVideoStateChange ''sending'' True]"
    using a by blast
next
  assume "\<not> isViewingVideo st \<and> isVideoConnectionReady st"
  then have *: "\<not> isViewingVideo st" "isVideoConnectionReady st" by simp_all
  note a = startViewingVideo_reuses [OF *, of e]
  show "fst (startViewingVideo e st) = Returned" using a by blast
  show "same_links st (snd (startViewingVideo e st))" using a by blast
  show "new_effects st (snd (startViewingVideo e st))
             = [SetInterval (fresh st), OnVideoStateChange ''viewing'' True]"
    using a by blast
qed

lemma viewing_flags:
  "\<not> isSendingVideo viewing" "isViewingVideo viewing" "isVideoConnectionReady viewing"
  by (simp_all add: viewing_state viewer_def new_TankRTC_def isVideoConnectionReady_def)

lemma sending_flags:
  "isSendingVideo sending" "\<not> isViewingVideo sending" "isVideoConnectionReady sending"
  by (simp_all add: sending_state viewer_def new_TankRTC_def isVideoConnectionReady_def)

lemma viewer_flags:
  "\<not> isSendingAudio viewer" "\<not> isListeningAudio viewer" "\<not> isSendingVideo viewer"
  "\<not> isViewingVideo viewer"
  by (simp_all add: viewer_def new_TankRTC_def)

lemma env_flags:
  "getUserMedia_ok opens_soon" "audioWs_opens opens_soon"
  by (simp_all add: env_simps)

theorem start_reconnects_audio_reuses_video_witness:
  "\<not> isSendingAudio listening \<and> getUserMedia_ok opens_soon \<and> audioWs_opens opens_soon
   \<and> audioWsConnection listening = Some \<lparr> ws_id = 0, ws_readyState = OPEN \<rparr>
   \<and> audioPeerConnection listening = Some 2
   \<and> WebSocketClose 0 \<in> set (new_effects listening (snd (startSendingAudio opens_soon listening)))
   \<and> PeerConnectionClose 2
        \<in> set (new_effects listening (snd (startSendingAudio opens_soon listening)))
   \<and> NewWebSocket 4 \<in> set (new_effects listening (snd (startSendingAudio opens_soon listening)))
   \<and> audioWsConnection (snd (startSendingAudio opens_soon listening))
        = Some \<lparr> ws_id = 4, ws_readyState = OPEN \<rparr>
   \<and> audioPeerConnection (snd (startSendingAudio opens_soon listening)) = Some 6
   \<and> \<not> isListeningAudio viewer
   \<and> NewWebSocket 0 \<in> set (new_effects viewer (snd (startListeningAudio opens_soon viewer)))
   \<and> \<not> isSendingVideo viewing \<and> isVideoConnectionReady viewing
   \<and> same_links viewing (snd (startSendingVideo opens_soon viewing))
   \<and> new_effects viewing (snd (startSendingVideo opens_soon viewing))
        = [SetInterval 5, OnVideoStateChange ''sending'' True]
   \<and> \<not> isViewingVideo sending \<and> isVideoConnectionReady sending
   \<and> same_links sending (snd (startViewingVideo opens_soon sending))
   \<and> new_effects sending (snd (startViewingVideo opens_soon sending))
        = [SetInterval 5, OnVideoStateChange ''viewing'' True]"
proof -
  have l: "\<not> isSendingAudio listening"
    "audioWsConnection listening = Some \<lparr> ws_id = 0, ws_readyState = OPEN \<rparr>"
    "audioPeerConnection listening = Some 2"
    by (simp_all add: listening_state viewer_def new_TankRTC_def)
  have f: "fresh viewing = 4" "fresh sending = 5"
    by (simp_all add: viewing_state sending_state)
  have n: "new_effects listening (snd (startSendingAudio opens_soon listening)) =
             [WebSocketClose 0, PeerConnectionClose 2, NewWebSocket 4,
              NewRTCPeerConnection 5, PeerConnectionClose 5, NewRTCPeerConnection 6,
              AddTrack 6 3, WebSocketSend 4 ''offer'', OnAudioStateChange ''sending'' True]"
    by (simp add: sendAudio_while_listening new_effects_def)
  have n0: "NewWebSocket 0 \<in> set (new_effects viewer (snd (startListeningAudio opens_soon viewer)))"
    using listening_state
    by (simp add: listening_def new_effects_def viewer_def new_TankRTC_def)
  show ?thesis
    using start_reconnects_audio_reuses_video [of listening opens_soon]
      start_reconnects_audio_reuses_video [of viewer opens_soon]
      start_reconnects_audio_reuses_video [of viewing opens_soon]
      start_reconnects_audio_reuses_video [of sending opens_soon]
      l f n n0 viewing_flags sending_flags viewer_flags env_flags
    by (simp add: sendAudio_while_listening)
qed

theorem start_reconnects_audio_reuses_video_counterexample:
  "isViewingVideo viewing \<and> \<not> isSendingVideo viewing
   \<and> videoWsConnection viewing = Some \<lparr> ws_id = 0, ws_readyState = OPEN \<rparr>
   \<and> videoPeerConnection viewing = Some 1
   \<and> fst (startSendingVideo opens_soon viewing) = Returned
   \<and> isSendingVideo (snd (startSendingVideo opens_soon viewing))
   \<and> videoWsConnection (snd (startSendingVideo opens_soon viewing))
        = Some \<lparr> ws_id = 0, ws_readyState = OPEN \<rparr>
   \<and> videoPeerConnection (snd (startSendingVideo opens_soon viewing)) = Some 1
   \<and> new_effects viewing (snd (startSendingVideo opens_soon viewing))
        = [SetInterval 5, OnVideoStateChange ''sending'' True]"
  by (simp add: sendVideo_while_viewing new_effects_def)
     (simp add: viewing_state viewer_def new_TankRTC_def)

lemma mic_held_state:
  "mic_held =
      viewer\<lparr> localStream := Some 0,
              audioWsConnection := Some \<lparr> ws_id = 1, ws_readyState = CLOSED \<rparr>, fresh := 2,
              effects := [NewWebSocket 1, OnError ''Failed to start sending audio''] \<rparr>"
  by (simp add: mic_held_def audio_start_simps viewer_def new_TankRTC_def env_simps)

lemma mic_held_listening_state:
  "mic_held_listening =
      viewer\<lparr> isListeningAudio := True, localStream := Some 0,
              audioWsConnection := Some \<lparr> ws_id = 2, ws_readyState = OPEN \<rparr>,
              audioPeerConnection := Some 4, fresh := 5,
              effects := [NewWebSocket 1, OnError ''Failed to start sending audio'',
                          WebSocketClose 1, NewWebSocket 2, NewRTCPeerConnection 3,
                          PeerConnectionClose 3, NewRTCPeerConnection 4,
                          WebSocketSend 2 ''offer'', OnAudioStateChange ''listening'' True] \<rparr>"
  by (simp add: mic_held_listening_def mic_held_state audio_start_simps viewer_def
      new_TankRTC_def env_simps)

text \<open>
  On a leg that is active the track is taken off the peer connection: after send-audio has
  been started over a listening controller, connection 6 has a sender for track 3.
\<close>

lemma stopSendingAudio_removes_track:
  "new_effects (snd (startSendingAudio opens_soon listening))
     (stopSendingAudio (snd (startSendingAudio opens_soon listening))) =
     [WebSocketSend 4 ''stop-sending'', TrackStop 3, RemoveTrack 6 3,
      OnAudioStateChange ''sending'' False]"
  unfolding sendAudio_while_listening
  by (simp add: stopSendingAudio_teardown(1) listening_state viewer_def new_TankRTC_def
      getSenders_def)

text \<open>
  Claim C4, as amended.  Calling a stop method on a leg that is idle leaves the four leg flags
  as they were and emits exactly one leg-state notification, \<open>(leg, false)\<close>, but it is not a
  no-op: the whole teardown runs.  For each method the theorem gives the effects appended, in
  order, and the fields cleared.

  \<^item> \<^verbatim>\<open>stopSendingAudio\<close>: the \<^verbatim>\<open>stop-sending\<close> notice if the audio socket is open and the
    client id is not empty; if a local stream is held, its track is stopped and, if the audio
    peer connection has a sender for it, removed from that connection; on Safari with an
    audio context, the context is closed if the listening leg is idle too; then the
    notification.  \<^verbatim>\<open>localStream\<close> is null afterwards.
  \<^item> \<^verbatim>\<open>stopListeningAudio\<close>: the notification first; the remote audio element, if any, is
    paused; the Safari audio context is closed if the sending leg is idle too.
    \<^verbatim>\<open>remoteAudioElement\<close> is null afterwards.
  \<^item> \<^verbatim>\<open>stopSendingVideo\<close>: the \<^verbatim>\<open>stop-video\<close> notice if the data channel is open; the capture
    timer, if any, is cleared; the camera track of the video element, if any, is stopped; if
    the viewing leg is idle too, the video peer connection and socket are closed; then the
    notification.  Timer, element, canvas and context are null afterwards, and so are the
    three video connection fields if the viewing leg is idle.
  \<^item> \<^verbatim>\<open>stopViewingVideo\<close>: the sweep timer, if any, is cleared; a source-removed notification
    is delivered for every cached entry, in order; the URL of every cached entry is revoked,
    in order; if the sending leg is idle too, the video peer connection and socket are closed;
    then the notification.  The timer is null and the cache empty afterwards, and the three
    video connection fields are null if the sending leg is idle.

  The two audio stops leave the five connection fields and the frame cache unchanged;
  \<^verbatim>\<open>stopSendingVideo\<close> leaves the cache unchanged; a video stop leaves the connection fields
  unchanged when the sibling video leg is active.

  The witness stops send-audio on a listening controller that holds a microphone stream
  from a failed start (the notice goes out over socket 2 and track 0 is stopped; connection 4
  has no sender for it, so nothing is removed), stops listen-audio on a constructed
  controller, stops each video leg while its sibling is active, and stops view-video on an
  idle controller with one cached frame.  The counterexample to the claim as first stated
  shows the notification on a constructed controller, the microphone stream released by
  \<^verbatim>\<open>stopSendingAudio\<close> on an idle leg, the cache emptied by \<^verbatim>\<open>stopViewingVideo\<close> on an idle leg,
  and the stop notice that \<^verbatim>\<open>stopSendingVideo\<close> sends over the sibling's open channel.
\<close>

theorem stop_on_idle_leg:
  "(\<not> isSendingAudio st \<longrightarrow>
      same_legs st (stopSendingAudio st)
      \<and> filter is_state_change (new_effects st (stopSendingAudio st))
           = [OnAudioStateChange ''sending'' False]
      \<and> same_links st (stopSendingAudio st)
      \<and> receivedVideos (stopSendingAudio st) = receivedVideos st
      \<and> new_effects st (stopSendingAudio st) =
           (case audioWsConnection st of
              None \<Rightarrow> []
            | Some ws \<Rightarrow>
                if ws_readyState ws = OPEN \<and> clientId st \<noteq> []
                then [WebSocketSend (ws_id ws) ''stop-sending''] else [])
           @ (case localStream st of
                None \<Rightarrow> []
              | Some m \<Rightarrow>
                  TrackStop m #
                  (case audioPeerConnection st of
                     None \<Rightarrow> []
                   | Some pc \<Rightarrow>
                       if m \<in> set (getSenders pc (effects st)) then [RemoveTrack pc m] else []))
           @ (case safariAudioContext st of
                None \<Rightarrow> []
              | Some c \<Rightarrow>
                  if isSafari st \<and> \<not> isListeningAudio st then [AudioContextClose c] else [])
           @ [OnAudioStateChange ''sending'' False]
      \<and> localStream (stopSendingAudio st) = None)
   \<and> (\<not> isListeningAudio st \<longrightarrow>
      same_legs st (stopListeningAudio st)
      \<and> filter is_state_change (new_effects st (stopListeningAudio st))
           = [OnAudioStateChange ''listening'' False]
      \<and> same_links st (stopListeningAudio st)
      \<and> receivedVideos (stopListeningAudio st) = receivedVideos st
      \<and> new_effects st (stopListeningAudio st) =
           [OnAudioStateChange ''listening'' False]
           @ (case remoteAudioElement st of None \<Rightarrow> [] | Some a \<Rightarrow> [AudioElementPause a])
           @ (case safariAudioContext st of
                None \<Rightarrow> []
              | Some c \<Rightarrow>
                  if isSafari st \<and> \<not> isSendingAudio st then [AudioContextClose c] else [])
      \<and> remoteAudioElement (stopListeningAudio st) = None)
   \<and> (\<not> isSendingVideo st \<longrightarrow>
      same_legs st (stopSendingVideo st)
      \<and> filter is_state_change (new_effects st (stopSendingVideo st))
           = [OnVideoStateChange ''sending'' False]
      \<and> receivedVideos (stopSendingVideo st) = receivedVideos st
      \<and> (isViewingVideo st \<longrightarrow> same_links st (stopSendingVideo st))
      \<and> new_effects st (stopSendingVideo st) =
           (case videoDataChannel st of
              None \<Rightarrow> []
            | Some dc \<Rightarrow>
                if dc_readyState dc = OPEN
                then [DataChannelSendText (dc_id dc) ''stop-video''] else [])
           @ (case videoInterval st of None \<Rightarrow> [] | Some t \<Rightarrow> [ClearInterval t])
           @ (case videoElement st of None \<Rightarrow> [] | Some m \<Rightarrow> [TrackStop m])
           @ (if isViewingVideo st then []
              else (case videoPeerConnection st of
                      None \<Rightarrow> [] | Some pc \<Rightarrow> [PeerConnectionClose pc])
                 @ (case videoWsConnection st of
                      None \<Rightarrow> [] | Some ws \<Rightarrow> [WebSocketClose (ws_id ws)]))
           @ [OnVideoStateChange ''sending'' False]
      \<and> videoInterval (stopSendingVideo st) = None
      \<and> videoElement (stopSendingVideo st) = None
      \<and> \<not> videoCanvas (stopSendingVideo st)
      \<and> \<not> videoContext (stopSendingVideo st)
      \<and> (\<not> isViewingVideo st \<longrightarrow>
            videoPeerConnection (stopSendingVideo st) = None
            \<and> videoWsConnection (stopSendingVideo st) = None
            \<and> videoDataChannel (stopSendingVideo st) = None))
   \<and> (\<not> isViewingVideo st \<longrightarrow>
      same_legs st (stopViewingVideo st)
      \<and> filter is_state_change (new_effects st (stopViewingVideo st))
           = [OnVideoStateChange ''viewing'' False]
      \<and> receivedVideos (stopViewingVideo st) = []
      \<and> (isSendingVideo st \<longrightarrow> same_links st (stopViewingVideo st))
      \<and> new_effects st (stopViewingVideo st) =
           (case videoCleanupInterval st of None \<Rightarrow> [] | Some t \<Rightarrow> [ClearInterval t])
           @ map (\<lambda>p. OnVideoSourceRemove (fst p)) (receivedVideos st)
           @ map (\<lambda>p. RevokeObjectURL (url (snd p))) (receivedVideos st)
           @ (if isSendingVideo st then []
              else (case videoPeerConnection st of
                      None \<Rightarrow> [] | Some pc \<Rightarrow> [PeerConnectionClose pc])
                 @ (case videoWsConnection st of
                      None \<Rightarrow> [] | Some ws \<Rightarrow> [WebSocketClose (ws_id ws)]))
           @ [OnVideoStateChange ''viewing'' False]
      \<and> videoCleanupInterval (stopViewingVideo st) = None
      \<and> (\<not> isSendingVideo st \<longrightarrow>
            videoPeerConnection (stopViewingVideo st) = None
            \<and> videoWsConnection (stopViewingVideo st) = None
            \<and> videoDataChannel (stopViewingVideo st) = None))"
proof (intro conjI impI)
  assume "\<not> isSendingAudio st"
  note a = stopSendingAudio_idle [OF this]
  show "same_legs st (stopSendingAudio st)"
    and "filter is_state_change (new_effects st (stopSendingAudio st))
           = [OnAudioStateChange ''sending'' False]"
    and "same_links st (stopSendingAudio st)"
    and "receivedVideos (stopSendingAudio st) = receivedVideos st"
    using a by blast+
next
  assume "\<not> isListeningAudio st"
  note a = stopListeningAudio_idle [OF this]
  show "same_legs st (stopListeningAudio st)"
    and "filter is_state_change (new_effects st (stopListeningAudio st))
           = [OnAudioStateChange ''listening'' False]"
    and "same_links st (stopListeningAudio st)"
    and "receivedVideos (stopListeningAudio st) = receivedVideos st"
    using a by blast+
next
  assume "\<not> isSendingVideo st"
  note a = stopSendingVideo_idle [OF this]
  show "same_legs st (stopSendingVideo st)"
    and "filter is_state_change (new_effects st (stopSendingVideo st))
           = [OnVideoStateChange ''sending'' False]"
    and "receivedVideos (stopSendingVideo st) = receivedVideos st"
    using a by blast+
  show "same_links st (stopSendingVideo st)" if "isViewingVideo st"
    using a that by blast
next
  assume "\<not> isViewingVideo st"
  note a = stopViewingVideo_idle [OF this]
  show "same_legs st (stopViewingVideo st)"
    and "filter is_state_change (new_effects st (stopViewingVideo st))
           = [OnVideoStateChange ''viewing'' False]"
    and "receivedVideos (stopViewingVideo st) = []"
    using a by blast+
  show "same_links st (stopViewingVideo st)" if "isSendingVideo st"
    using a that by blast
qed (simp_all only: stopSendingAudio_teardown stopListeningAudio_teardown
      stopSendingVideo_teardown stopViewingVideo_teardown not_False_eq_True)

theorem stop_on_idle_leg_witness:
  "\<not> isSendingAudio viewer \<and> \<not> isListeningAudio viewer
   \<and> same_legs viewer (stopSendingAudio viewer)
   \<and> filter is_state_change (new_effects viewer (stopSendingAudio viewer))
        = [OnAudioStateChange ''sending'' False]
   \<and> same_links viewer (stopSendingAudio viewer)
   \<and> same_legs viewer (stopListeningAudio viewer)
   \<and> filter is_state_change (new_effects viewer (stopListeningAudio viewer))
        = [OnAudioStateChange ''listening'' False]
   \<and> new_effects viewer (stopListeningAudio viewer) = [OnAudioStateChange ''listening'' False]
   \<and> \<not> isSendingAudio mic_held_listening \<and> isListeningAudio mic_held_listening
   \<and> localStream mic_held_listening = Some 0
   \<and> audioPeerConnection mic_held_listening = Some 4
   \<and> same_legs mic_held_listening (stopSendingAudio mic_held_listening)
   \<and> same_links mic_held_listening (stopSendingAudio mic_held_listening)
   \<and> new_effects mic_held_listening (stopSendingAudio mic_held_listening)
        = [WebSocketSend 2 ''stop-sending'', TrackStop 0, OnAudioStateChange ''sending'' False]
   \<and> localStream (stopSendingAudio mic_held_listening) = None
   \<and> \<not> isSendingVideo viewing \<and> isViewingVideo viewing
   \<and> same_legs viewing (stopSendingVideo viewing)
   \<and> filter is_state_change (new_effects viewing (stopSendingVideo viewing))
        = [OnVideoStateChange ''sending'' False]
   \<and> same_links viewing (stopSendingVideo viewing)
   \<and> receivedVideos (stopSendingVideo viewing) = receivedVideos viewing
   \<and> new_effects viewing (stopSendingVideo viewing)
        = [DataChannelSendText 2 ''stop-video'', OnVideoStateChange ''sending'' False]
   \<and> \<not> isViewingVideo sending \<and> isSendingVideo sending
   \<and> same_legs sending (stopViewingVideo sending)
   \<and> filter is_state_change (new_effects sending (stopViewingVideo sending))
        = [OnVideoStateChange ''viewing'' False]
   \<and> same_links sending (stopViewingVideo sending)
   \<and> receivedVideos (stopViewingVideo sending) = []
   \<and> new_effects sending (stopViewingVideo sending) = [OnVideoStateChange ''viewing'' False]
   \<and> \<not> isViewingVideo viewer_with_p1 \<and> \<not> isSendingVideo viewer_with_p1
   \<and> receivedVideos viewer_with_p1 = [(p1, \<lparr> url = 0, timestamp = 0, frameNumber = 7 \<rparr>)]
   \<and> same_legs viewer_with_p1 (stopViewingVideo viewer_with_p1)
   \<and> new_effects viewer_with_p1 (stopViewingVideo viewer_with_p1)
        = [OnVideoSourceRemove p1, RevokeObjectURL 0, OnVideoStateChange ''viewing'' False]
   \<and> receivedVideos (stopViewingVideo viewer_with_p1) = []"
proof -
  have v: "remoteAudioElement viewer = None" "safariAudioContext viewer = None"
    "audioWsConnection viewer = None" "localStream viewer = None"
    by (simp_all add: viewer_def new_TankRTC_def)
  have m: "\<not> isSendingAudio mic_held_listening" "isListeningAudio mic_held_listening"
    "localStream mic_held_listening = Some 0" "audioPeerConnection mic_held_listening = Some 4"
    "audioWsConnection mic_held_listening = Some \<lparr> ws_id = 2, ws_readyState = OPEN \<rparr>"
    "clientId mic_held_listening \<noteq> []" "safariAudioContext mic_held_listening = None"
    "0 \<notin> set (getSenders 4 (effects mic_held_listening))"
    by (simp_all add: mic_held_listening_state viewer_def new_TankRTC_def getSenders_def)
  have g: "videoDataChannel viewing = Some \<lparr> dc_id = 2, dc_readyState = OPEN \<rparr>"
    "videoInterval viewing = None" "videoElement viewing = None"
    by (simp_all add: viewing_state viewer_def new_TankRTC_def)
  have s: "videoCleanupInterval sending = None" "receivedVideos sending = []"
    by (simp_all add: sending_state viewer_def new_TankRTC_def)
  have p: "\<not> isViewingVideo viewer_with_p1" "\<not> isSendingVideo viewer_with_p1"
    "receivedVideos viewer_with_p1 = [(p1, \<lparr> url = 0, timestamp = 0, frameNumber = 7 \<rparr>)]"
    "videoCleanupInterval viewer_with_p1 = None" "videoPeerConnection viewer_with_p1 = None"
    "videoWsConnection viewer_with_p1 = None"
    by (simp_all add: viewer_with_p1_def viewer_def new_TankRTC_def)
  show ?thesis
    using stop_on_idle_leg [of viewer] stop_on_idle_leg [of mic_held_listening]
      stop_on_idle_leg [of viewing] stop_on_idle_leg [of sending]
      stop_on_idle_leg [of viewer_with_p1]
      viewer_flags viewing_flags sending_flags v m g s p
    by simp
qed

lemmas stop_simps = stopSendingAudio_def stopListeningAudio_def stopSendingVideo_def
  stopViewingVideo_def sendStopSending_def releaseLocalStream_def releaseRemoteAudio_def
  sendStopVideo_def clearVideoInterval_def releaseVideoElement_def clearCleanupInterval_def
  clearReceivedVideos_eq closeVideoIfIdle_def closeVideoConnection_def cleanupSafariAudio_def
  emit_def Let_def

theorem stop_on_idle_leg_counterexample:
  "\<not> isSendingVideo viewer
   \<and> new_effects viewer (stopSendingVideo viewer) = [OnVideoStateChange ''sending'' False]
   \<and> \<not> isSendingAudio viewer
   \<and> new_effects viewer (stopSendingAudio viewer) = [OnAudioStateChange ''sending'' False]
   \<and> \<not> isSendingAudio mic_held
   \<and> localStream mic_held = Some 0
   \<and> localStream (stopSendingAudio mic_held) = None
   \<and> new_effects mic_held (stopSendingAudio mic_held)
        = [TrackStop 0, OnAudioStateChange ''sending'' False]
   \<and> \<not> isViewingVideo viewer_with_p1
   \<and> receivedVideos viewer_with_p1 \<noteq> []
   \<and> receivedVideos (stopViewingVideo viewer_with_p1) = []
   \<and> new_effects viewer_with_p1 (stopViewingVideo viewer_with_p1)
        = [OnVideoSourceRemove p1, RevokeObjectURL 0, OnVideoStateChange ''viewing'' False]
   \<and> \<not> isSendingVideo viewing
   \<and> new_effects viewing (stopSendingVideo viewing)
        = [DataChannelSendText 2 ''stop-video'', OnVideoStateChange ''sending'' False]"
  by (simp add: stop_simps new_effects_def viewing_state mic_held_state viewer_with_p1_def
      viewer_def new_TankRTC_def)

end
